theory Spec2Isabelle
  imports Main "HOL-Library.AList" "HOL-Library.Sublist"
begin

section \<open>Python values and exceptions\<close>

text \<open>
  The tool schemas of \<^verbatim>\<open>agent_service.py\<close> declare every parameter as a JSON string, and
  \<^verbatim>\<open>Task.to_dict\<close> renders every field as a string or \<^verbatim>\<open>None\<close>. The values of this
  development are therefore JSON strings and JSON null (Python \<^verbatim>\<open>str\<close> and \<^verbatim>\<open>None\<close>);
  numbers, booleans, arrays and nested objects are outside the model. Strings are byte
  lists, so the string functions below are exact on ASCII text.
\<close>

datatype jval = JNull | JStr string

type_synonym json_object = "(string \<times> jval) list"

text \<open>
  An exception is its class and its message. \<^verbatim>\<open>str(exc)\<close> of an exception built from one
  message is that message.
\<close>

datatype exn =
    ValueError string
  | TypeError string
  | AttributeError string
  | JSONDecodeError string
  | APIError string

fun str_exc :: "exn \<Rightarrow> string" where
  "str_exc (ValueError m) = m"
| "str_exc (TypeError m) = m"
| "str_exc (AttributeError m) = m"
| "str_exc (JSONDecodeError m) = m"
| "str_exc (APIError m) = m"

definition quote :: "string \<Rightarrow> string" where
  "quote s = CHR 0x27 # s @ [CHR 0x27]"

definition hex_digit :: "nat \<Rightarrow> char" where
  "hex_digit n = ''0123456789abcdef'' ! n"

text \<open>\<^verbatim>\<open>repr\<close> of a \<^verbatim>\<open>str\<close>, as CPython writes it for ASCII text.\<close>

definition repr_char :: "char \<Rightarrow> char \<Rightarrow> string" where
  "repr_char q c =
     (if c = q \<or> c = CHR 0x5C then [CHR 0x5C, c]
      else if c = CHR 0x0A then [CHR 0x5C, CHR ''n'']
      else if c = CHR 0x0D then [CHR 0x5C, CHR ''r'']
      else if c = CHR 0x09 then [CHR 0x5C, CHR ''t'']
      else if (of_char c :: nat) < 32 \<or> (of_char c :: nat) = 127
        then [CHR 0x5C, CHR ''x'', hex_digit (of_char c div 16), hex_digit (of_char c mod 16)]
      else [c])"

definition py_repr :: "string \<Rightarrow> string" where
  "py_repr s =
     (let q = (if CHR 0x27 \<in> set s \<and> CHR 0x22 \<notin> set s then CHR 0x22 else CHR 0x27)
      in q # concat (map (repr_char q) s) @ [q])"

fun str_of :: "jval \<Rightarrow> string" where
  "str_of JNull = ''None''"
| "str_of (JStr s) = s"

fun repr_of :: "jval \<Rightarrow> string" where
  "repr_of JNull = ''None''"
| "repr_of (JStr s) = py_repr s"

text \<open>
  \<^verbatim>\<open>str.lower\<close> is Python's: it lowers every cased letter of Unicode. The functions that
  call it take it as the parameter \<open>lower\<close>, so what is proved of them holds for Python's
  function. \<open>ascii_lower\<close> is that function on ASCII text, which it maps to ASCII text; the
  evaluations at concrete inputs below use it, on ASCII strings only.
\<close>

definition lower_char :: "char \<Rightarrow> char" where
  "lower_char c =
     (case map_of (zip ''ABCDEFGHIJKLMNOPQRSTUVWXYZ'' ''abcdefghijklmnopqrstuvwxyz'') c of
        Some l \<Rightarrow> l
      | None \<Rightarrow> c)"

definition ascii_lower :: "string \<Rightarrow> string" where
  "ascii_lower s = map lower_char s"

text \<open>\<^verbatim>\<open>k in s\<close> on strings: \<open>k\<close> occurs in \<open>s\<close> as a contiguous run.\<close>

fun contains :: "string \<Rightarrow> string \<Rightarrow> bool" where
  "contains k [] = (k = [])"
| "contains k (c # cs) = (prefix k (c # cs) \<or> contains k cs)"

section \<open>Calendar dates\<close>

text \<open>
  A \<^verbatim>\<open>datetime.date\<close>. Python only builds dates that satisfy \<open>valid_date\<close>.
\<close>

record date =
  year :: nat
  month :: nat
  day :: nat

definition is_leap :: "nat \<Rightarrow> bool" where
  "is_leap y = (y mod 4 = 0 \<and> (y mod 100 \<noteq> 0 \<or> y mod 400 = 0))"

definition days_in_month :: "nat \<Rightarrow> nat \<Rightarrow> nat" where
  "days_in_month y m =
     (if m = 2 then (if is_leap y then 29 else 28)
      else if m = 4 \<or> m = 6 \<or> m = 9 \<or> m = 11 then 30
      else 31)"

definition valid_date :: "date \<Rightarrow> bool" where
  "valid_date d =
     (1 \<le> year d \<and> year d \<le> 9999 \<and> 1 \<le> month d \<and> month d \<le> 12 \<and>
      1 \<le> day d \<and> day d \<le> days_in_month (year d) (month d))"

definition digit_char :: "nat \<Rightarrow> char" where
  "digit_char n = ''0123456789'' ! n"

definition digit_val :: "char \<Rightarrow> nat option" where
  "digit_val c = map_of (zip ''0123456789'' [0, 1, 2, 3, 4, 5, 6, 7, 8, 9]) c"

fun str_nat :: "nat \<Rightarrow> string" where
  "str_nat n = (if n < 10 then [digit_char n] else str_nat (n div 10) @ [digit_char (n mod 10)])"

declare str_nat.simps [simp del]

text \<open>\<^verbatim>\<open>"%0wd" % n\<close>: decimal, padded with zeros on the left to width \<open>w\<close>.\<close>

definition zero_pad :: "nat \<Rightarrow> nat \<Rightarrow> string" where
  "zero_pad w n = replicate (w - length (str_nat n)) CHR ''0'' @ str_nat n"

text \<open>\<^verbatim>\<open>date.isoformat\<close>: \<^verbatim>\<open>"%04d-%02d-%02d" % (year, month, day)\<close>.\<close>

definition isoformat :: "date \<Rightarrow> string" where
  "isoformat d = zero_pad 4 (year d) @ ''-'' @ zero_pad 2 (month d) @ ''-'' @ zero_pad 2 (day d)"

fun parse_digits :: "nat \<Rightarrow> string \<Rightarrow> nat option" where
  "parse_digits acc [] = Some acc"
| "parse_digits acc (c # cs) =
     (case digit_val c of None \<Rightarrow> None | Some v \<Rightarrow> parse_digits (acc * 10 + v) cs)"

text \<open>The range checks of the \<^verbatim>\<open>date\<close> constructor, in its order.\<close>

definition new_date :: "nat \<Rightarrow> nat \<Rightarrow> nat \<Rightarrow> exn + date" where
  "new_date y m d =
     (if y < 1 \<or> 9999 < y then Inl (ValueError (''year '' @ str_nat y @ '' is out of range''))
      else if m < 1 \<or> 12 < m then Inl (ValueError ''month must be in 1..12'')
      else if d < 1 \<or> days_in_month y m < d then Inl (ValueError ''day is out of range for month'')
      else Inr \<lparr>year = y, month = m, day = d\<rparr>)"

text \<open>
  \<^verbatim>\<open>date.fromisoformat\<close> on a \<^verbatim>\<open>str\<close>, as Python 3.10 reads it: exactly ten characters
  \<^verbatim>\<open>YYYY-MM-DD\<close>, then the constructor's range checks. (Later versions also read the
  basic and the week formats; the theorems below only use what \<open>fromisoformat\<close> returns.)
\<close>

definition fromisoformat :: "string \<Rightarrow> exn + date" where
  "fromisoformat s =
     (if length s = 10 \<and> s ! 4 = CHR ''-'' \<and> s ! 7 = CHR ''-'' then
        (case (parse_digits 0 (take 4 s), parse_digits 0 (take 2 (drop 5 s)),
                parse_digits 0 (take 2 (drop 8 s))) of
           (Some y, Some m, Some d) \<Rightarrow> new_date y m d
         | _ \<Rightarrow> Inl (ValueError (''Invalid isoformat string: '' @ py_repr s)))
      else Inl (ValueError (''Invalid isoformat string: '' @ py_repr s)))"

section \<open>task.py\<close>

datatype TaskType = BUG | FEATURE | IMPROVEMENT | TASK

datatype TaskStatus = PENDING | IN_PROGRESS | DONE | CANCELLED

fun TaskType_value :: "TaskType \<Rightarrow> string" where
  "TaskType_value BUG = ''bug''"
| "TaskType_value FEATURE = ''feature''"
| "TaskType_value IMPROVEMENT = ''improvement''"
| "TaskType_value TASK = ''task''"

fun TaskStatus_value :: "TaskStatus \<Rightarrow> string" where
  "TaskStatus_value PENDING = ''pending''"
| "TaskStatus_value IN_PROGRESS = ''in_progress''"
| "TaskStatus_value DONE = ''done''"
| "TaskStatus_value CANCELLED = ''cancelled''"

text \<open>
  The dataclass \<^verbatim>\<open>Task\<close>. Python does not enforce the annotation \<^verbatim>\<open>str\<close>: a JSON null
  passed for \<open>code\<close>, \<open>title\<close> or \<open>description\<close> is stored as \<^verbatim>\<open>None\<close>, so these three
  fields hold a \<open>jval\<close>. The other four fields only ever receive what the dispatcher has
  coerced.
\<close>

record Task =
  code :: jval
  title :: jval
  description :: jval
  type :: TaskType
  start_date :: "date option"
  due_date :: "date option"
  status :: TaskStatus

definition date_json :: "date option \<Rightarrow> jval" where
  "date_json d = (case d of Some x \<Rightarrow> JStr (isoformat x) | None \<Rightarrow> JNull)"

definition to_dict :: "Task \<Rightarrow> json_object" where
  "to_dict t =
     [(''code'', code t),
      (''title'', title t),
      (''description'', description t),
      (''type'', JStr (TaskType_value (type t))),
      (''start_date'', date_json (start_date t)),
      (''due_date'', date_json (due_date t)),
      (''status'', JStr (TaskStatus_value (status t)))]"

text \<open>
  Calling the enum class on a value (\<^verbatim>\<open>TaskType(v)\<close>): the member with that value, or
  \<^verbatim>\<open>ValueError\<close>.
\<close>

definition TaskType_call :: "jval \<Rightarrow> exn + TaskType" where
  "TaskType_call v =
     (case find (\<lambda>m. JStr (TaskType_value m) = v) [BUG, FEATURE, IMPROVEMENT, TASK] of
        Some m \<Rightarrow> Inr m
      | None \<Rightarrow> Inl (ValueError (repr_of v @ '' is not a valid TaskType'')))"

definition TaskStatus_call :: "jval \<Rightarrow> exn + TaskStatus" where
  "TaskStatus_call v =
     (case find (\<lambda>m. JStr (TaskStatus_value m) = v) [PENDING, IN_PROGRESS, DONE, CANCELLED] of
        Some m \<Rightarrow> Inr m
      | None \<Rightarrow> Inl (ValueError (repr_of v @ '' is not a valid TaskStatus'')))"

section \<open>todo\_service.py\<close>

text \<open>
  The module-level list \<^verbatim>\<open>tasks\<close> is passed in and returned. A parameter declared
  \<^verbatim>\<open>str | None\<close> is a \<open>jval\<close> (\<open>JNull\<close> is \<^verbatim>\<open>None\<close>); the enum and date parameters are options.
\<close>

definition add_task ::
  "jval \<Rightarrow> jval \<Rightarrow> jval \<Rightarrow> TaskType \<Rightarrow> date option \<Rightarrow> date option \<Rightarrow> TaskStatus \<Rightarrow>
   Task list \<Rightarrow> Task list \<times> Task" where
  "add_task c ti de ty sd dd st tasks =
     (let task = \<lparr>code = c, title = ti, description = de, type = ty,
                  start_date = sd, due_date = dd, status = st\<rparr>
      in (tasks @ [task], task))"

definition no_lower :: exn where
  "no_lower = AttributeError (quote ''NoneType'' @ '' object has no attribute '' @ quote ''lower'')"

text \<open>
  \<^verbatim>\<open>keyword in t.title.lower() or keyword in t.description.lower()\<close>: the description is
  only looked at when the title does not match, and \<^verbatim>\<open>.lower()\<close> on \<^verbatim>\<open>None\<close> raises.
\<close>

definition search_match :: "(string \<Rightarrow> string) \<Rightarrow> string \<Rightarrow> Task \<Rightarrow> exn + bool" where
  "search_match lower keyword t =
     (case title t of
        JNull \<Rightarrow> Inl no_lower
      | JStr ti \<Rightarrow>
          if contains keyword (lower ti) then Inr True
          else (case description t of
                  JNull \<Rightarrow> Inl no_lower
                | JStr de \<Rightarrow> Inr (contains keyword (lower de))))"

fun search_filter ::
  "(string \<Rightarrow> string) \<Rightarrow> string \<Rightarrow> Task list \<Rightarrow> exn + Task list" where
  "search_filter lower keyword [] = Inr []"
| "search_filter lower keyword (t # ts) =
     (case search_match lower keyword t of
        Inl e \<Rightarrow> Inl e
      | Inr b \<Rightarrow>
          (case search_filter lower keyword ts of
             Inl e \<Rightarrow> Inl e
           | Inr r \<Rightarrow> Inr (if b then t # r else r)))"

definition get_tasks ::
  "(string \<Rightarrow> string) \<Rightarrow> TaskStatus option \<Rightarrow> TaskType option \<Rightarrow> jval \<Rightarrow> Task list \<Rightarrow>
   exn + Task list" where
  "get_tasks lower st ty search tasks =
     (let result = tasks;
          result = (case st of Some s \<Rightarrow> filter (\<lambda>t. status t = s) result | None \<Rightarrow> result);
          result = (case ty of Some y \<Rightarrow> filter (\<lambda>t. type t = y) result | None \<Rightarrow> result)
      in case search of
           JStr s \<Rightarrow> search_filter lower (lower s) result
         | JNull \<Rightarrow> Inr result)"

definition not_found :: "jval \<Rightarrow> exn" where
  "not_found c = ValueError (''No task found with code '' @ quote (str_of c))"

definition set_fields ::
  "jval \<Rightarrow> jval \<Rightarrow> TaskType option \<Rightarrow> date option \<Rightarrow> date option \<Rightarrow> TaskStatus option \<Rightarrow>
   Task \<Rightarrow> Task" where
  "set_fields ti de ty sd dd st task =
     (let task = (if ti \<noteq> JNull then task\<lparr>title := ti\<rparr> else task);
          task = (if de \<noteq> JNull then task\<lparr>description := de\<rparr> else task);
          task = (case ty of Some y \<Rightarrow> task\<lparr>type := y\<rparr> | None \<Rightarrow> task);
          task = (case sd of Some d \<Rightarrow> task\<lparr>start_date := Some d\<rparr> | None \<Rightarrow> task);
          task = (case dd of Some d \<Rightarrow> task\<lparr>due_date := Some d\<rparr> | None \<Rightarrow> task);
          task = (case st of Some s \<Rightarrow> task\<lparr>status := s\<rparr> | None \<Rightarrow> task)
      in task)"

text \<open>The task object found by \<^verbatim>\<open>next(...)\<close> is mutated where it sits in the list.\<close>

fun replace_first :: "jval \<Rightarrow> Task \<Rightarrow> Task list \<Rightarrow> Task list" where
  "replace_first c new [] = []"
| "replace_first c new (t # ts) = (if code t = c then new # ts else t # replace_first c new ts)"

definition update_task ::
  "jval \<Rightarrow> jval \<Rightarrow> jval \<Rightarrow> TaskType option \<Rightarrow> date option \<Rightarrow> date option \<Rightarrow>
   TaskStatus option \<Rightarrow> Task list \<Rightarrow> Task list \<times> (exn + Task)" where
  "update_task c ti de ty sd dd st tasks =
     (case find (\<lambda>t. code t = c) tasks of
        None \<Rightarrow> (tasks, Inl (not_found c))
      | Some task \<Rightarrow>
          (let task = set_fields ti de ty sd dd st task
           in (replace_first c task tasks, Inr task)))"

fun delete_task :: "jval \<Rightarrow> Task list \<Rightarrow> Task list \<times> (exn + Task)" where
  "delete_task c [] = ([], Inl (not_found c))"
| "delete_task c (task # rest) =
     (if code task = c then (rest, Inr task)
      else (case delete_task c rest of (rest', r) \<Rightarrow> (task # rest', r)))"

section \<open>agent\_service.py: the dispatcher\<close>

text \<open>
  The argument dictionary after the coercions holds strings and \<^verbatim>\<open>None\<close> as they came, enum
  members and dates. Dictionaries are association lists in insertion order;
  \<^verbatim>\<open>d[k] = v\<close> is \<open>AList.update\<close>, which replaces in place or appends.
\<close>

datatype pyval = PJson jval | PType TaskType | PStatus TaskStatus | PDate date

type_synonym kwargs = "(string \<times> pyval) list"

definition in_dict :: "string \<Rightarrow> (string \<times> 'v) list \<Rightarrow> bool" where
  "in_dict k d = (map_of d k \<noteq> None)"

text \<open>\<^verbatim>\<open>arguments.get(k)\<close>, and \<^verbatim>\<open>arguments[k]\<close> where the key is known to be there.\<close>

definition get :: "json_object \<Rightarrow> string \<Rightarrow> jval" where
  "get d k = (case map_of d k of Some v \<Rightarrow> v | None \<Rightarrow> JNull)"

definition of_json :: "json_object \<Rightarrow> kwargs" where
  "of_json d = map (\<lambda>(k, v). (k, PJson v)) d"

definition date_value :: "date option \<Rightarrow> pyval" where
  "date_value d = (case d of Some x \<Rightarrow> PDate x | None \<Rightarrow> PJson JNull)"

text \<open>\<^verbatim>\<open>_parse_date\<close>: \<^verbatim>\<open>date.fromisoformat(value) if value else None\<close>.\<close>

fun parse_date :: "jval \<Rightarrow> exn + date option" where
  "parse_date JNull = Inr None"
| "parse_date (JStr s) =
     (if s = [] then Inr None
      else (case fromisoformat s of Inl e \<Rightarrow> Inl e | Inr d \<Rightarrow> Inr (Some d)))"

subsection \<open>Calling a service function with \<^verbatim>\<open>**arguments\<close>\<close>

definition unexpected_keyword :: "string \<Rightarrow> string \<Rightarrow> exn" where
  "unexpected_keyword f k = TypeError (f @ ''() got an unexpected keyword argument '' @ quote k)"

definition name_list :: "string list \<Rightarrow> string" where
  "name_list ks =
     (case ks of
        [] \<Rightarrow> []
      | [a] \<Rightarrow> quote a
      | [a, b] \<Rightarrow> quote a @ '' and '' @ quote b
      | _ \<Rightarrow> concat (map (\<lambda>k. quote k @ '', '') (butlast ks)) @ ''and '' @ quote (last ks))"

definition missing_arguments :: "string \<Rightarrow> string list \<Rightarrow> exn" where
  "missing_arguments f ks =
     TypeError (f @ ''() missing '' @ str_nat (length ks) @ '' required positional argument''
                @ (if length ks = 1 then [] else ''s'') @ '': '' @ name_list ks)"

text \<open>
  Python rejects a keyword that is no parameter first, then a required parameter without
  a value.
\<close>

definition call_check :: "string \<Rightarrow> string list \<Rightarrow> string list \<Rightarrow> kwargs \<Rightarrow> exn option" where
  "call_check f params required kw =
     (case find (\<lambda>k. k \<notin> set params) (map fst kw) of
        Some k \<Rightarrow> Some (unexpected_keyword f k)
      | None \<Rightarrow>
          (case filter (\<lambda>k. \<not> in_dict k kw) required of
             [] \<Rightarrow> None
           | ks \<Rightarrow> Some (missing_arguments f ks)))"

text \<open>
  The value bound to a parameter, or its default. The entries \<open>type\<close>, \<open>status\<close> and the two
  dates are written by the coercions before every call, so they carry the constructor
  matched here; every other entry is a JSON value.
\<close>

definition text_arg :: "kwargs \<Rightarrow> string \<Rightarrow> jval \<Rightarrow> jval" where
  "text_arg kw k dflt = (case map_of kw k of Some (PJson v) \<Rightarrow> v | _ \<Rightarrow> dflt)"

definition type_arg :: "kwargs \<Rightarrow> TaskType option" where
  "type_arg kw = (case map_of kw ''type'' of Some (PType y) \<Rightarrow> Some y | _ \<Rightarrow> None)"

definition status_arg :: "kwargs \<Rightarrow> TaskStatus option" where
  "status_arg kw = (case map_of kw ''status'' of Some (PStatus s) \<Rightarrow> Some s | _ \<Rightarrow> None)"

definition date_arg :: "kwargs \<Rightarrow> string \<Rightarrow> date option" where
  "date_arg kw k = (case map_of kw k of Some (PDate d) \<Rightarrow> Some d | _ \<Rightarrow> None)"

definition call_add_task :: "kwargs \<Rightarrow> Task list \<Rightarrow> Task list \<times> (exn + Task)" where
  "call_add_task kw tasks =
     (case call_check ''add_task''
             [''code'', ''title'', ''description'', ''type'', ''start_date'', ''due_date'', ''status'']
             [''code'', ''title''] kw of
        Some e \<Rightarrow> (tasks, Inl e)
      | None \<Rightarrow>
          (case add_task (text_arg kw ''code'' JNull) (text_arg kw ''title'' JNull)
                  (text_arg kw ''description'' (JStr []))
                  (case type_arg kw of Some y \<Rightarrow> y | None \<Rightarrow> TASK)
                  (date_arg kw ''start_date'') (date_arg kw ''due_date'')
                  (case status_arg kw of Some s \<Rightarrow> s | None \<Rightarrow> PENDING) tasks of
             (tasks', task) \<Rightarrow> (tasks', Inr task)))"

definition call_get_tasks ::
  "(string \<Rightarrow> string) \<Rightarrow> kwargs \<Rightarrow> Task list \<Rightarrow> exn + Task list" where
  "call_get_tasks lower kw tasks =
     (case call_check ''get_tasks'' [''status'', ''type'', ''search''] [] kw of
        Some e \<Rightarrow> Inl e
      | None \<Rightarrow>
          get_tasks lower (status_arg kw) (type_arg kw) (text_arg kw ''search'' JNull) tasks)"

definition call_update_task :: "kwargs \<Rightarrow> Task list \<Rightarrow> Task list \<times> (exn + Task)" where
  "call_update_task kw tasks =
     (case call_check ''update_task''
             [''code'', ''title'', ''description'', ''type'', ''start_date'', ''due_date'', ''status'']
             [''code''] kw of
        Some e \<Rightarrow> (tasks, Inl e)
      | None \<Rightarrow>
          update_task (text_arg kw ''code'' JNull) (text_arg kw ''title'' JNull)
            (text_arg kw ''description'' JNull) (type_arg kw)
            (date_arg kw ''start_date'') (date_arg kw ''due_date'') (status_arg kw) tasks)"

definition call_delete_task :: "kwargs \<Rightarrow> Task list \<Rightarrow> Task list \<times> (exn + Task)" where
  "call_delete_task kw tasks =
     (case call_check ''delete_task'' [''code''] [''code''] kw of
        Some e \<Rightarrow> (tasks, Inl e)
      | None \<Rightarrow> delete_task (text_arg kw ''code'' JNull) tasks)"

subsection \<open>\<^verbatim>\<open>_dispatch\<close>\<close>

text \<open>
  Each coercion reads the JSON value the caller sent under a key and then writes the
  coerced value under the same key; no key is read after it has been written, so the
  reads below are from the caller's dictionary.
\<close>

definition coerce_add :: "json_object \<Rightarrow> exn + kwargs" where
  "coerce_add arguments =
     (case (if in_dict ''type'' arguments then TaskType_call (get arguments ''type'')
            else Inr TASK) of
        Inl e \<Rightarrow> Inl e
      | Inr ty \<Rightarrow>
     (case (if in_dict ''status'' arguments then TaskStatus_call (get arguments ''status'')
            else Inr PENDING) of
        Inl e \<Rightarrow> Inl e
      | Inr st \<Rightarrow>
     (case parse_date (get arguments ''start_date'') of
        Inl e \<Rightarrow> Inl e
      | Inr sd \<Rightarrow>
     (case parse_date (get arguments ''due_date'') of
        Inl e \<Rightarrow> Inl e
      | Inr dd \<Rightarrow>
          Inr (AList.update ''due_date'' (date_value dd)
                (AList.update ''start_date'' (date_value sd)
                  (AList.update ''status'' (PStatus st)
                    (AList.update ''type'' (PType ty) (of_json arguments)))))))))"

definition coerce_get :: "json_object \<Rightarrow> exn + kwargs" where
  "coerce_get arguments =
     (case (if in_dict ''status'' arguments
            then (case TaskStatus_call (get arguments ''status'') of
                    Inl e \<Rightarrow> Inl e
                  | Inr st \<Rightarrow> Inr (AList.update ''status'' (PStatus st) (of_json arguments)))
            else Inr (of_json arguments)) of
        Inl e \<Rightarrow> Inl e
      | Inr kw \<Rightarrow>
          (if in_dict ''type'' arguments
           then (case TaskType_call (get arguments ''type'') of
                   Inl e \<Rightarrow> Inl e
                 | Inr ty \<Rightarrow> Inr (AList.update ''type'' (PType ty) kw))
           else Inr kw))"

definition coerce_update :: "json_object \<Rightarrow> exn + kwargs" where
  "coerce_update arguments =
     (case (if in_dict ''type'' arguments
            then (case TaskType_call (get arguments ''type'') of
                    Inl e \<Rightarrow> Inl e
                  | Inr ty \<Rightarrow> Inr (AList.update ''type'' (PType ty) (of_json arguments)))
            else Inr (of_json arguments)) of
        Inl e \<Rightarrow> Inl e
      | Inr kw \<Rightarrow>
     (case (if in_dict ''status'' arguments
            then (case TaskStatus_call (get arguments ''status'') of
                    Inl e \<Rightarrow> Inl e
                  | Inr st \<Rightarrow> Inr (AList.update ''status'' (PStatus st) kw))
            else Inr kw) of
        Inl e \<Rightarrow> Inl e
      | Inr kw \<Rightarrow>
     (case parse_date (get arguments ''start_date'') of
        Inl e \<Rightarrow> Inl e
      | Inr sd \<Rightarrow>
     (case parse_date (get arguments ''due_date'') of
        Inl e \<Rightarrow> Inl e
      | Inr dd \<Rightarrow>
          Inr (AList.update ''due_date'' (date_value dd)
                (AList.update ''start_date'' (date_value sd) kw))))))"

text \<open>\<^verbatim>\<open>{k: v for k, v in arguments.items() if v is not None or k == "code"}\<close>\<close>

definition drop_none :: "kwargs \<Rightarrow> kwargs" where
  "drop_none kw = filter (\<lambda>(k, v). v \<noteq> PJson JNull \<or> k = ''code'') kw"

text \<open>
  What \<^verbatim>\<open>_dispatch\<close> returns: one field map, or a list of them. The error dictionary
  \<^verbatim>\<open>{"error": str(exc)}\<close> that the agent substitutes is a field map too.
\<close>

datatype result = Dict json_object | DictList "json_object list"

definition task_result :: "Task list \<times> (exn + Task) \<Rightarrow> Task list \<times> (exn + result)" where
  "task_result p =
     (case p of
        (tasks, Inl e) \<Rightarrow> (tasks, Inl e)
      | (tasks, Inr task) \<Rightarrow> (tasks, Inr (Dict (to_dict task))))"

definition dispatch ::
  "(string \<Rightarrow> string) \<Rightarrow> string \<Rightarrow> json_object \<Rightarrow> Task list \<Rightarrow>
   Task list \<times> (exn + result)" where
  "dispatch lower name arguments tasks =
     (if name = ''add_task'' then
        (case coerce_add arguments of
           Inl e \<Rightarrow> (tasks, Inl e)
         | Inr kw \<Rightarrow> task_result (call_add_task kw tasks))
      else if name = ''get_tasks'' then
        (case coerce_get arguments of
           Inl e \<Rightarrow> (tasks, Inl e)
         | Inr kw \<Rightarrow>
             (case call_get_tasks lower kw tasks of
                Inl e \<Rightarrow> (tasks, Inl e)
              | Inr found \<Rightarrow> (tasks, Inr (DictList (map to_dict found)))))
      else if name = ''update_task'' then
        (case coerce_update arguments of
           Inl e \<Rightarrow> (tasks, Inl e)
         | Inr kw \<Rightarrow> task_result (call_update_task (drop_none kw) tasks))
      else if name = ''delete_task'' then
        task_result (call_delete_task (of_json arguments) tasks)
      else (tasks, Inl (ValueError (''Unknown function: '' @ name))))"

section \<open>agent\_service.py: the agent loop\<close>

text \<open>
  A tool call as the model emits it: its identifier, the function name and the argument
  payload, a string that is meant to be JSON.
\<close>

record tool_call =
  call_id :: string
  function_name :: string
  function_arguments :: string

record message =
  content :: "string option"
  tool_calls :: "tool_call list"

text \<open>
  The conversation. The content of a tool message is \<^verbatim>\<open>json.dumps(result, default=str)\<close>;
  the model keeps the result itself.
\<close>

datatype chat_message =
    System string
  | User string
  | Assistant message
  | Tool string result

definition system_prompt :: string where
  "system_prompt = ''You are a helpful task management assistant. ''
     @ ''Use the provided tools to manage the user's task list. ''
     @ ''Always respond in clear, friendly language.''"

definition error_result :: "exn \<Rightarrow> result" where
  "error_result exc = Dict [(''error'', JStr (str_exc exc))]"

text \<open>
  The loop over \<^verbatim>\<open>message.tool_calls\<close>. \<open>loads\<close> is \<^verbatim>\<open>json.loads\<close>, which raises on a payload
  that is not JSON; that call stands before the \<^verbatim>\<open>try\<close>, so its exception leaves the loop.
\<close>

fun run_tool_calls ::
  "(string \<Rightarrow> string) \<Rightarrow> (string \<Rightarrow> exn + json_object) \<Rightarrow> tool_call list \<Rightarrow> Task list \<Rightarrow>
   chat_message list \<Rightarrow> Task list \<times> (exn + chat_message list)" where
  "run_tool_calls lower loads [] tasks messages = (tasks, Inr messages)"
| "run_tool_calls lower loads (tc # tcs) tasks messages =
     (case loads (function_arguments tc) of
        Inl e \<Rightarrow> (tasks, Inl e)
      | Inr arguments \<Rightarrow>
          (case dispatch lower (function_name tc) arguments tasks of
             (tasks', r) \<Rightarrow>
               (let result = (case r of Inl exc \<Rightarrow> error_result exc | Inr res \<Rightarrow> res)
                in run_tool_calls lower loads tcs tasks'
                     (messages @ [Tool (call_id tc) result]))))"

text \<open>
  \<open>create\<close> is \<^verbatim>\<open>client.chat.completions.create\<close>: it takes the conversation and whether
  the tool schemas are offered, and returns the model's message or raises.
\<close>

definition agent ::
  "(string \<Rightarrow> string) \<Rightarrow> (chat_message list \<Rightarrow> bool \<Rightarrow> exn + message) \<Rightarrow>
   (string \<Rightarrow> exn + json_object) \<Rightarrow> string \<Rightarrow> Task list \<Rightarrow>
   Task list \<times> (exn + string option)" where
  "agent lower create loads query tasks =
     (let messages = [System system_prompt, User query]
      in case create messages True of
           Inl e \<Rightarrow> (tasks, Inl e)
         | Inr message \<Rightarrow>
             (let messages = messages @ [Assistant message]
              in if tool_calls message \<noteq> [] then
                   (case run_tool_calls lower loads (tool_calls message) tasks messages of
                      (tasks', Inl e) \<Rightarrow> (tasks', Inl e)
                    | (tasks', Inr messages) \<Rightarrow>
                        (case create messages False of
                           Inl e \<Rightarrow> (tasks', Inl e)
                         | Inr followup \<Rightarrow> (tasks', Inr (content followup))))
                 else (tasks, Inr (content message))))"

section \<open>Dates: formatting and parsing\<close>

lemma digit_val_digit_char: "n < 10 \<Longrightarrow> digit_val (digit_char n) = Some n"
proof -
  assume "n < 10"
  then have "n \<in> {0, 1, 2, 3, 4, 5, 6, 7, 8, 9}"
    by auto
  then show ?thesis
    by (auto simp: digit_val_def digit_char_def)
qed

lemma digit_char_0: "digit_char 0 = CHR ''0''"
  by (simp add: digit_char_def)

lemma str_nat_1: "n < 10 \<Longrightarrow> str_nat n = [digit_char n]"
  by (simp add: str_nat.simps)

lemma str_nat_2: "10 \<le> n \<Longrightarrow> n < 100 \<Longrightarrow> str_nat n = [digit_char (n div 10), digit_char (n mod 10)]"
  by (subst str_nat.simps) (simp add: str_nat_1 div_less_iff_less_mult)

lemma div_10_10: "(n::nat) div 10 div 10 = n div 100"
  by (simp flip: div_mult2_eq)

lemma div_10_100: "(n::nat) div 10 div 100 = n div 1000"
  by (simp flip: div_mult2_eq)

lemma str_nat_3:
  "100 \<le> n \<Longrightarrow> n < 1000 \<Longrightarrow>
   str_nat n = [digit_char (n div 100), digit_char (n div 10 mod 10), digit_char (n mod 10)]"
  by (subst str_nat.simps)
     (simp add: str_nat_2 div_less_iff_less_mult less_eq_div_iff_mult_less_eq div_10_10)

lemma str_nat_4:
  "1000 \<le> n \<Longrightarrow> n < 10000 \<Longrightarrow>
   str_nat n = [digit_char (n div 1000), digit_char (n div 100 mod 10),
                digit_char (n div 10 mod 10), digit_char (n mod 10)]"
  by (subst str_nat.simps)
     (simp add: str_nat_3 div_less_iff_less_mult less_eq_div_iff_mult_less_eq div_10_10 div_10_100)

lemma replicate_3: "replicate 3 x = [x, x, x]"
  by (simp add: numeral_3_eq_3)

lemma replicate_2: "replicate 2 x = [x, x]"
  by (simp add: numeral_2_eq_2)

lemma zero_pad_2:
  "n < 100 \<Longrightarrow> zero_pad 2 n = [digit_char (n div 10), digit_char (n mod 10)]"
  by (cases "n < 10") (simp_all add: zero_pad_def str_nat_1 str_nat_2 digit_char_0)

lemma zero_pad_4:
  assumes "n < 10000"
  shows "zero_pad 4 n = [digit_char (n div 1000), digit_char (n div 100 mod 10),
                         digit_char (n div 10 mod 10), digit_char (n mod 10)]"
proof -
  consider "n < 10" | "10 \<le> n" "n < 100" | "100 \<le> n" "n < 1000" | "1000 \<le> n"
    by linarith
  then show ?thesis
  proof cases
    case 1
    then show ?thesis by (simp add: zero_pad_def str_nat_1 digit_char_0 replicate_3)
  next
    case 2
    then show ?thesis by (simp add: zero_pad_def str_nat_2 digit_char_0 replicate_2)
  next
    case 3
    then show ?thesis by (simp add: zero_pad_def str_nat_3 digit_char_0)
  next
    case 4
    with assms show ?thesis by (simp add: zero_pad_def str_nat_4)
  qed
qed

lemma parse_digits_2:
  "n < 100 \<Longrightarrow> parse_digits 0 [digit_char (n div 10), digit_char (n mod 10)] = Some n"
  by (simp add: digit_val_digit_char div_less_iff_less_mult)

lemma parse_digits_4:
  assumes "n < 10000"
  shows "parse_digits 0 [digit_char (n div 1000), digit_char (n div 100 mod 10),
                         digit_char (n div 10 mod 10), digit_char (n mod 10)] = Some n"
proof -
  have k: "n div 1000 < 10"
    using assms by (simp add: div_less_iff_less_mult)
  have a: "n div 10 * 10 + n mod 10 = n"
    by simp
  have b: "n div 100 * 10 + n div 10 mod 10 = n div 10"
    using div_mult_mod_eq [of "n div 10" 10] by (simp add: div_10_10)
  have c: "n div 1000 * 10 + n div 100 mod 10 = n div 100"
    using div_mult_mod_eq [of "n div 100" 10] by (simp flip: div_mult2_eq)
  show ?thesis
    by (simp add: digit_val_digit_char k c b a)
qed

lemma days_in_month_le: "days_in_month y m \<le> 31"
  by (simp add: days_in_month_def)

lemma fromisoformat_isoformat:
  assumes "valid_date d"
  shows "fromisoformat (isoformat d) = Inr d"
proof -
  have y: "year d < 10000" and m: "month d < 100" and dd: "day d < 100"
    using assms days_in_month_le [of "year d" "month d"] by (auto simp: valid_date_def)
  have "new_date (year d) (month d) (day d) = Inr d"
    using assms by (simp add: new_date_def valid_date_def)
  then show ?thesis
    using parse_digits_4 [OF y] parse_digits_2 [OF m] parse_digits_2 [OF dd]
    by (simp add: fromisoformat_def isoformat_def zero_pad_4 [OF y] zero_pad_2 [OF m]
        zero_pad_2 [OF dd] del: parse_digits.simps)
qed

lemma isoformat_not_empty: "isoformat d \<noteq> []"
  by (simp add: isoformat_def)

section \<open>The task store\<close>


lemma delete_task_not_found:
  "\<forall>t \<in> set tasks. code t \<noteq> c \<Longrightarrow> delete_task c tasks = (tasks, Inl (not_found c))"
  by (induction tasks) auto

lemma find_code_None: "\<forall>t \<in> set tasks. code t \<noteq> c \<Longrightarrow> find (\<lambda>t. code t = c) tasks = None"
  by (induction tasks) auto

lemma update_task_not_found:
  "\<forall>t \<in> set tasks. code t \<noteq> c \<Longrightarrow>
   update_task c ti de ty sd dd st tasks = (tasks, Inl (not_found c))"
  by (simp add: update_task_def find_code_None)

lemma delete_task_first:
  assumes "\<exists>t \<in> set tasks. code t = c"
  shows "\<exists>pre t post. tasks = pre @ t # post \<and> (\<forall>u \<in> set pre. code u \<noteq> c) \<and> code t = c \<and>
           delete_task c tasks = (pre @ post, Inr t)"
  using assms
proof (induction tasks)
  case Nil
  then show ?case by simp
next
  case (Cons a tasks)
  show ?case
  proof (cases "code a = c")
    case True
    then have "a # tasks = [] @ a # tasks \<and> (\<forall>u \<in> set []. code u \<noteq> c) \<and> code a = c \<and>
        delete_task c (a # tasks) = ([] @ tasks, Inr a)"
      by simp
    then show ?thesis by blast
  next
    case False
    with Cons.prems have "\<exists>t \<in> set tasks. code t = c" by auto
    from Cons.IH [OF this] obtain pre t post where
      h: "tasks = pre @ t # post" "\<forall>u \<in> set pre. code u \<noteq> c" "code t = c"
        "delete_task c tasks = (pre @ post, Inr t)"
      by blast
    with False have "a # tasks = (a # pre) @ t # post \<and> (\<forall>u \<in> set (a # pre). code u \<noteq> c) \<and>
        code t = c \<and> delete_task c (a # tasks) = ((a # pre) @ post, Inr t)"
      by simp
    then show ?thesis by blast
  qed
qed

section \<open>Argument dictionaries and the \<open>add_task\<close> call\<close>

lemma map_of_of_json: "map_of (of_json d) k = map_option PJson (map_of d k)"
  by (induction d) (auto simp: of_json_def)

lemma keys_of_json: "map fst (of_json d) = map fst d"
  by (induction d) (auto simp: of_json_def)


lemma in_dict_of_json: "in_dict k (of_json d) = in_dict k d"
  by (simp add: in_dict_def map_of_of_json)

lemma in_dict_update: "in_dict k (AList.update k' v d) \<longleftrightarrow> k = k' \<or> in_dict k d"
  by (simp add: in_dict_def update_conv')

lemma find_keys_update:
  "\<not> P k \<Longrightarrow> find P (map fst (AList.update k v al)) = find P (map fst al)"
  by (induction al) auto

lemma get_in_dict: "in_dict k d \<Longrightarrow> map_of d k = Some (get d k)"
  by (auto simp: in_dict_def get_def)

lemma get_not_in_dict: "\<not> in_dict k d \<Longrightarrow> get d k = JNull"
  by (auto simp: in_dict_def get_def)

lemma text_arg_of_json:
  "text_arg (of_json d) k dflt = (if in_dict k d then get d k else dflt)"
  by (auto simp: text_arg_def map_of_of_json in_dict_def get_def)

lemma date_arg_value: "(case date_value d of PDate x \<Rightarrow> Some x | _ \<Rightarrow> None) = d"
  by (cases d) (simp_all add: date_value_def)

lemma call_add_task_coerced:
  fixes args :: json_object and ty st sd dd
  defines "kw \<equiv> AList.update ''due_date'' (date_value dd)
                (AList.update ''start_date'' (date_value sd)
                  (AList.update ''status'' (PStatus st)
                    (AList.update ''type'' (PType ty) (of_json args))))"
  shows "call_add_task kw tasks =
     (case find (\<lambda>k. k \<notin> set [''code'', ''title'', ''description'', ''type'', ''start_date'',
                                  ''due_date'', ''status'']) (map fst args) of
        Some k \<Rightarrow> (tasks, Inl (unexpected_keyword ''add_task'' k))
      | None \<Rightarrow>
          (case filter (\<lambda>k. \<not> in_dict k args) [''code'', ''title''] of
             [] \<Rightarrow>
               (tasks @ [\<lparr>code = get args ''code'', title = get args ''title'',
                        description = (if in_dict ''description'' args then get args ''description''
                                       else JStr []),
                        type = ty, start_date = sd, due_date = dd, status = st\<rparr>],
                Inr \<lparr>code = get args ''code'', title = get args ''title'',
                        description = (if in_dict ''description'' args then get args ''description''
                                       else JStr []),
                        type = ty, start_date = sd, due_date = dd, status = st\<rparr>)
           | ks \<Rightarrow> (tasks, Inl (missing_arguments ''add_task'' ks))))"
proof -
  have keys: "find (\<lambda>k. k \<notin> set [''code'', ''title'', ''description'', ''type'', ''start_date'',
                                  ''due_date'', ''status'']) (map fst kw) =
        find (\<lambda>k. k \<notin> set [''code'', ''title'', ''description'', ''type'', ''start_date'',
                                  ''due_date'', ''status'']) (map fst args)"
    unfolding kw_def by (simp add: find_keys_update keys_of_json)
  have ind: "in_dict ''code'' kw = in_dict ''code'' args" "in_dict ''title'' kw = in_dict ''title'' args"
    unfolding kw_def by (simp_all add: in_dict_update in_dict_of_json)
  have texts: "text_arg kw ''code'' JNull = get args ''code''"
    "text_arg kw ''title'' JNull = get args ''title''"
    "text_arg kw ''description'' (JStr []) =
       (if in_dict ''description'' args then get args ''description'' else JStr [])"
    unfolding kw_def
    by (simp_all add: text_arg_def update_conv' map_of_of_json in_dict_def get_def
        split: option.split)
  have typed: "type_arg kw = Some ty" "status_arg kw = Some st"
    "date_arg kw ''start_date'' = sd" "date_arg kw ''due_date'' = dd"
    unfolding kw_def
    by (simp_all add: type_arg_def status_arg_def date_arg_def update_conv' date_arg_value)
  show ?thesis
  proof (cases "find (\<lambda>k. k \<notin> set [''code'', ''title'', ''description'', ''type'', ''start_date'',
                                  ''due_date'', ''status'']) (map fst args)")
    case (Some k)
    then show ?thesis
      unfolding call_add_task_def call_check_def keys by simp
  next
    case None
    then show ?thesis
      unfolding call_add_task_def call_check_def keys
      by (simp add: ind texts typed add_task_def Let_def)
  qed
qed


lemma TaskType_call_value: "TaskType_call (JStr (TaskType_value y)) = Inr y"
  by (cases y) (simp_all add: TaskType_call_def)

lemma TaskStatus_call_value: "TaskStatus_call (JStr (TaskStatus_value s)) = Inr s"
  by (cases s) (simp_all add: TaskStatus_call_def)






lemma parse_date_str: "s \<noteq> [] \<Longrightarrow> fromisoformat s = Inl e \<Longrightarrow> parse_date (JStr s) = Inl e"
  by simp

lemma dispatch_add_task_closed:
  assumes "(if in_dict ''type'' args then TaskType_call (get args ''type'') else Inr TASK) = Inr ty"
    and "(if in_dict ''status'' args then TaskStatus_call (get args ''status'') else Inr PENDING)
           = Inr st"
    and "parse_date (get args ''start_date'') = Inr sd"
    and "parse_date (get args ''due_date'') = Inr dd"
  shows "dispatch lower ''add_task'' args tasks =
     (case find (\<lambda>k. k \<notin> set [''code'', ''title'', ''description'', ''type'', ''start_date'',
                                  ''due_date'', ''status'']) (map fst args) of
        Some k \<Rightarrow> (tasks, Inl (unexpected_keyword ''add_task'' k))
      | None \<Rightarrow>
          (case filter (\<lambda>k. \<not> in_dict k args) [''code'', ''title''] of
             [] \<Rightarrow>
               (tasks @ [\<lparr>code = get args ''code'', title = get args ''title'',
                        description = (if in_dict ''description'' args then get args ''description''
                                       else JStr []),
                        type = ty, start_date = sd, due_date = dd, status = st\<rparr>],
                Inr (Dict (to_dict \<lparr>code = get args ''code'', title = get args ''title'',
                        description = (if in_dict ''description'' args then get args ''description''
                                       else JStr []),
                        type = ty, start_date = sd, due_date = dd, status = st\<rparr>)))
           | ks \<Rightarrow> (tasks, Inl (missing_arguments ''add_task'' ks))))"
proof -
  have "coerce_add args = Inr (AList.update ''due_date'' (date_value dd)
                (AList.update ''start_date'' (date_value sd)
                  (AList.update ''status'' (PStatus st)
                    (AList.update ''type'' (PType ty) (of_json args)))))"
    unfolding coerce_add_def using assms by simp
  then show ?thesis
    by (simp add: dispatch_def call_add_task_coerced task_result_def
        split: option.split list.split)
qed



section \<open>Serialising a task and reading it back\<close>

lemma parse_date_date_json:
  "(\<forall>x. d = Some x \<longrightarrow> valid_date x) \<Longrightarrow> parse_date (date_json d) = Inr d"
  by (cases d) (simp_all add: date_json_def isoformat_not_empty fromisoformat_isoformat)

text \<open>
  Claim C8. A task serialised with \<open>to_dict\<close> and read back is the same task, field for
  field. The repository reads a field map back in one place, the \<open>add_task\<close> branch of the
  dispatcher: enums from their string values, dates from their \<^verbatim>\<open>YYYY-MM-DD\<close> strings, null
  dates as \<^verbatim>\<open>None\<close>. Dispatching \<open>add_task\<close> on \<open>to_dict t\<close> appends exactly \<open>t\<close> and returns
  \<open>to_dict t\<close> again. The dates of \<open>t\<close> are dates Python can build.
\<close>

theorem to_dict_round_trip:
  assumes "\<forall>d. start_date t = Some d \<or> due_date t = Some d \<longrightarrow> valid_date d"
  shows "dispatch lower ''add_task'' (to_dict t) tasks = (tasks @ [t], Inr (Dict (to_dict t)))"
proof -
  have sd: "parse_date (get (to_dict t) ''start_date'') = Inr (start_date t)"
    and dd: "parse_date (get (to_dict t) ''due_date'') = Inr (due_date t)"
    using assms by (simp_all add: to_dict_def get_def parse_date_date_json)
  have ty: "(if in_dict ''type'' (to_dict t) then TaskType_call (get (to_dict t) ''type'')
             else Inr TASK) = Inr (type t)"
    by (simp add: to_dict_def in_dict_def get_def TaskType_call_value)
  have st: "(if in_dict ''status'' (to_dict t) then TaskStatus_call (get (to_dict t) ''status'')
             else Inr PENDING) = Inr (status t)"
    by (simp add: to_dict_def in_dict_def get_def TaskStatus_call_value)
  have rest: "map fst (to_dict t) = [''code'', ''title'', ''description'', ''type'', ''start_date'',
        ''due_date'', ''status'']"
    "in_dict ''code'' (to_dict t)" "in_dict ''title'' (to_dict t)"
    "in_dict ''description'' (to_dict t)"
    "get (to_dict t) ''code'' = code t" "get (to_dict t) ''title'' = title t"
    "get (to_dict t) ''description'' = description t"
    by (simp_all add: to_dict_def in_dict_def get_def)
  have t: "\<lparr>code = code t, title = title t, description = description t, type = type t,
      start_date = start_date t, due_date = due_date t, status = status t\<rparr> = t"
    by simp
  show ?thesis
    unfolding dispatch_add_task_closed [OF ty st sd dd] by (simp add: rest t)
qed

theorem to_dict_round_trip_witness:
  "valid_date \<lparr>year = 2024, month = 2, day = 29\<rparr> \<and>
   dispatch ascii_lower ''add_task''
     [(''code'', JStr ''TASK-001''), (''title'', JStr ''Fix login bug''),
      (''description'', JStr []), (''type'', JStr ''bug''),
      (''start_date'', JStr ''2024-02-29''), (''due_date'', JNull),
      (''status'', JStr ''in_progress'')] []
   = ([\<lparr>code = JStr ''TASK-001'', title = JStr ''Fix login bug'',
                     description = JStr [], type = BUG,
                     start_date = Some \<lparr>year = 2024, month = 2, day = 29\<rparr>, due_date = None,
                     status = IN_PROGRESS\<rparr>],
      Inr (Dict [(''code'', JStr ''TASK-001''), (''title'', JStr ''Fix login bug''),
      (''description'', JStr []), (''type'', JStr ''bug''),
      (''start_date'', JStr ''2024-02-29''), (''due_date'', JNull),
      (''status'', JStr ''in_progress'')]))"
proof -
  let ?t = "\<lparr>code = JStr ''TASK-001'', title = JStr ''Fix login bug'',
                     description = JStr [], type = BUG,
                     start_date = Some \<lparr>year = 2024, month = 2, day = 29\<rparr>, due_date = None,
                     status = IN_PROGRESS\<rparr>"
  have v: "\<forall>d. start_date ?t = Some d \<or> due_date ?t = Some d \<longrightarrow> valid_date d"
    by (simp add: valid_date_def days_in_month_def is_leap_def)
  have iso: "isoformat \<lparr>year = 2024, month = 2, day = 29\<rparr> = ''2024-02-29''"
    by (simp add: isoformat_def zero_pad_4 zero_pad_2 digit_char_def)
  have "to_dict ?t = [(''code'', JStr ''TASK-001''), (''title'', JStr ''Fix login bug''),
      (''description'', JStr []), (''type'', JStr ''bug''),
      (''start_date'', JStr ''2024-02-29''), (''due_date'', JNull),
      (''status'', JStr ''in_progress'')]"
    by (simp add: to_dict_def date_json_def iso)
  moreover have "valid_date \<lparr>year = 2024, month = 2, day = 29\<rparr>"
    by (simp add: valid_date_def days_in_month_def is_leap_def)
  ultimately show ?thesis
    using to_dict_round_trip [OF v, of ascii_lower "[]"] by simp
qed

section \<open>Deleting a task\<close>

text \<open>
  Claim C6. When some task has code \<open>c\<close>, \<open>delete_task c\<close> splits the store as
  \<open>pre @ t # post\<close>, where no task of \<open>pre\<close> has code \<open>c\<close> and \<open>t\<close> is the first that has; it
  returns \<open>t\<close> as it was and leaves \<open>pre @ post\<close>: one task fewer, every other task (later
  tasks with the same code included) kept in its order.
\<close>

theorem delete_task_removes_first_match:
  assumes "\<exists>t \<in> set tasks. code t = c"
  shows "\<exists>pre t post. tasks = pre @ t # post \<and> (\<forall>u \<in> set pre. code u \<noteq> c) \<and> code t = c \<and>
           delete_task c tasks = (pre @ post, Inr t) \<and>
           length (fst (delete_task c tasks)) + 1 = length tasks"
proof -
  from delete_task_first [OF assms] obtain pre t post where
    h: "tasks = pre @ t # post" "\<forall>u \<in> set pre. code u \<noteq> c" "code t = c"
      "delete_task c tasks = (pre @ post, Inr t)"
    by blast
  then have "length (fst (delete_task c tasks)) + 1 = length tasks"
    by simp
  with h show ?thesis by blast
qed

theorem delete_task_removes_first_match_witness:
  "delete_task (JStr ''B'')
     [\<lparr>code = JStr ''A'', title = JStr ''one'', description = JStr [], type = TASK,
        start_date = None, due_date = None, status = PENDING\<rparr>,
      \<lparr>code = JStr ''B'', title = JStr ''two'', description = JStr [], type = BUG,
        start_date = None, due_date = None, status = DONE\<rparr>,
      \<lparr>code = JStr ''B'', title = JStr ''three'', description = JStr [], type = TASK,
        start_date = None, due_date = None, status = PENDING\<rparr>]
   = ([\<lparr>code = JStr ''A'', title = JStr ''one'', description = JStr [], type = TASK,
        start_date = None, due_date = None, status = PENDING\<rparr>,
       \<lparr>code = JStr ''B'', title = JStr ''three'', description = JStr [], type = TASK,
        start_date = None, due_date = None, status = PENDING\<rparr>],
      Inr \<lparr>code = JStr ''B'', title = JStr ''two'', description = JStr [], type = BUG,
        start_date = None, due_date = None, status = DONE\<rparr>) \<and>
   length (fst (delete_task (JStr ''B'')
     [\<lparr>code = JStr ''A'', title = JStr ''one'', description = JStr [], type = TASK,
        start_date = None, due_date = None, status = PENDING\<rparr>,
      \<lparr>code = JStr ''B'', title = JStr ''two'', description = JStr [], type = BUG,
        start_date = None, due_date = None, status = DONE\<rparr>,
      \<lparr>code = JStr ''B'', title = JStr ''three'', description = JStr [], type = TASK,
        start_date = None, due_date = None, status = PENDING\<rparr>])) + 1 = 3"
proof -
  let ?a = "\<lparr>code = JStr ''A'', title = JStr ''one'', description = JStr [], type = TASK,
        start_date = None, due_date = None, status = PENDING\<rparr>"
  let ?b = "\<lparr>code = JStr ''B'', title = JStr ''two'', description = JStr [], type = BUG,
        start_date = None, due_date = None, status = DONE\<rparr>"
  let ?c = "\<lparr>code = JStr ''B'', title = JStr ''three'', description = JStr [], type = TASK,
        start_date = None, due_date = None, status = PENDING\<rparr>"
  have "\<exists>t \<in> set [?a, ?b, ?c]. code t = JStr ''B''"
    by simp
  from delete_task_removes_first_match [OF this]
  have "length (fst (delete_task (JStr ''B'') [?a, ?b, ?c])) + 1 = length [?a, ?b, ?c]"
    by blast
  moreover have "delete_task (JStr ''B'') [?a, ?b, ?c] = ([?a, ?c], Inr ?b)"
    by simp
  ultimately show ?thesis
    by simp
qed

section \<open>A code that matches no task\<close>

lemma dispatch_update_task_code_only:
  "dispatch lower ''update_task'' [(''code'', c)] tasks =
     task_result (update_task c JNull JNull None None None None tasks)"
  by (simp add: dispatch_def coerce_update_def in_dict_def get_def of_json_def date_value_def
      drop_none_def call_update_task_def call_check_def text_arg_def type_arg_def
      status_arg_def date_arg_def)

text \<open>
  Claim C5. When no stored task has the code \<open>s\<close>, \<open>update_task\<close> and \<open>delete_task\<close> raise
  \<^verbatim>\<open>ValueError("No task found with code 's'")\<close> and return the store as it was. In the agent
  loop, a tool call \<open>update_task\<close> whose payload decodes to \<^verbatim>\<open>{"code": s}\<close> then appends the
  tool message \<^verbatim>\<open>{"error": "No task found with code 's'"}\<close> under the call's identifier, and
  the loop goes on with the remaining calls on the unchanged store.
\<close>

theorem not_found_is_reported:
  assumes "\<forall>t \<in> set tasks. code t \<noteq> JStr s"
  shows "update_task (JStr s) ti de ty sd dd st tasks =
           (tasks, Inl (ValueError (''No task found with code '' @ CHR 0x27 # s @ [CHR 0x27]))) \<and>
         delete_task (JStr s) tasks =
           (tasks, Inl (ValueError (''No task found with code '' @ CHR 0x27 # s @ [CHR 0x27]))) \<and>
         (loads (function_arguments tc) = Inr [(''code'', JStr s)] \<and>
          function_name tc = ''update_task'' \<longrightarrow>
          run_tool_calls lower loads (tc # tcs) tasks messages =
            run_tool_calls lower loads tcs tasks
              (messages @ [Tool (call_id tc)
                 (Dict [(''error'',
                    JStr (''No task found with code '' @ CHR 0x27 # s @ [CHR 0x27]))])]))"
proof -
  have nf: "not_found (JStr s) = ValueError (''No task found with code '' @ CHR 0x27 # s @ [CHR 0x27])"
    by (simp add: not_found_def quote_def)
  have u: "\<And>ti de ty sd dd st. update_task (JStr s) ti de ty sd dd st tasks = (tasks, Inl (not_found (JStr s)))"
    using assms by (rule update_task_not_found)
  have d: "delete_task (JStr s) tasks = (tasks, Inl (not_found (JStr s)))"
    using assms by (rule delete_task_not_found)
  have "dispatch lower ''update_task'' [(''code'', JStr s)] tasks = (tasks, Inl (not_found (JStr s)))"
    by (simp add: dispatch_update_task_code_only u task_result_def)
  then have "loads (function_arguments tc) = Inr [(''code'', JStr s)] \<and>
          function_name tc = ''update_task'' \<longrightarrow>
          run_tool_calls lower loads (tc # tcs) tasks messages =
            run_tool_calls lower loads tcs tasks
              (messages @ [Tool (call_id tc) (error_result (not_found (JStr s)))])"
    by simp
  with u d show ?thesis
    by (simp add: nf error_result_def)
qed


theorem not_found_is_reported_witness:
  "update_task (JStr ''NOPE'') (JStr ''New title'') JNull None None None (Some DONE)
     [\<lparr>code = JStr ''TASK-001'', title = JStr ''Fix login bug'', description = JStr [],
        type = BUG, start_date = None, due_date = None, status = PENDING\<rparr>]
   = ([\<lparr>code = JStr ''TASK-001'', title = JStr ''Fix login bug'', description = JStr [],
        type = BUG, start_date = None, due_date = None, status = PENDING\<rparr>],
      Inl (ValueError (''No task found with code '' @ CHR 0x27 # ''NOPE'' @ [CHR 0x27]))) \<and>
   delete_task (JStr ''NOPE'')
     [\<lparr>code = JStr ''TASK-001'', title = JStr ''Fix login bug'', description = JStr [],
        type = BUG, start_date = None, due_date = None, status = PENDING\<rparr>]
   = ([\<lparr>code = JStr ''TASK-001'', title = JStr ''Fix login bug'', description = JStr [],
        type = BUG, start_date = None, due_date = None, status = PENDING\<rparr>],
      Inl (ValueError (''No task found with code '' @ CHR 0x27 # ''NOPE'' @ [CHR 0x27]))) \<and>
   run_tool_calls ascii_lower
     (\<lambda>p. if p = [CHR ''{'', CHR 0x22] @ ''code'' @ [CHR 0x22] @ '': '' @ [CHR 0x22] @ ''NOPE'' @ [CHR 0x22, CHR ''}'']
          then Inr [(''code'', JStr ''NOPE'')] else Inl (JSONDecodeError ''Expecting value''))
     [\<lparr>call_id = ''call_1'', function_name = ''update_task'',
         function_arguments = [CHR ''{'', CHR 0x22] @ ''code'' @ [CHR 0x22] @ '': '' @ [CHR 0x22] @ ''NOPE'' @ [CHR 0x22, CHR ''}'']\<rparr>]
     [\<lparr>code = JStr ''TASK-001'', title = JStr ''Fix login bug'', description = JStr [],
        type = BUG, start_date = None, due_date = None, status = PENDING\<rparr>]
     []
   = ([\<lparr>code = JStr ''TASK-001'', title = JStr ''Fix login bug'', description = JStr [],
        type = BUG, start_date = None, due_date = None, status = PENDING\<rparr>],
      Inr [Tool ''call_1'' (Dict [(''error'', JStr (''No task found with code '' @ CHR 0x27 # ''NOPE'' @ [CHR 0x27]))])])"
proof -
  let ?tasks = "[\<lparr>code = JStr ''TASK-001'', title = JStr ''Fix login bug'', description = JStr [],
        type = BUG, start_date = None, due_date = None, status = PENDING\<rparr>]"
  have "\<forall>t \<in> set ?tasks. code t \<noteq> JStr ''NOPE''"
    by simp
  from not_found_is_reported [OF this,
      of "JStr ''New title''" JNull None None None "Some DONE"
         "(\<lambda>p. if p = [CHR ''{'', CHR 0x22] @ ''code'' @ [CHR 0x22] @ '': '' @ [CHR 0x22] @ ''NOPE'' @ [CHR 0x22, CHR ''}'']
          then Inr [(''code'', JStr ''NOPE'')] else Inl (JSONDecodeError ''Expecting value''))"
         "\<lparr>call_id = ''call_1'', function_name = ''update_task'',
         function_arguments = [CHR ''{'', CHR 0x22] @ ''code'' @ [CHR 0x22] @ '': '' @ [CHR 0x22] @ ''NOPE'' @ [CHR 0x22, CHR ''}'']\<rparr>"
         ascii_lower "[]" "[]"]
  show ?thesis
    by simp
qed

section \<open>The agent loop and undecodable payloads\<close>

lemma run_tool_calls_decoded_step:
  assumes "loads (function_arguments tc) = Inr a"
    and "dispatch lower (function_name tc) a tasks = (tasks', r)"
  shows "run_tool_calls lower loads (tc # tcs) tasks messages =
     run_tool_calls lower loads tcs tasks'
       (messages @ [Tool (call_id tc) (case r of Inl exc \<Rightarrow> error_result exc | Inr res \<Rightarrow> res)])"
  using assms by (simp add: Let_def)

lemma run_tool_calls_all_decoded:
  assumes "\<forall>tc \<in> set tcs. \<exists>a. loads (function_arguments tc) = Inr a"
  shows "\<exists>tasks' results. length results = length tcs \<and>
           run_tool_calls lower loads tcs tasks messages =
             (tasks', Inr (messages @ map (\<lambda>(tc, r). Tool (call_id tc) r) (zip tcs results)))"
  using assms
proof (induction tcs arbitrary: tasks messages)
  case Nil
  then show ?case by simp
next
  case (Cons tc tcs)
  from Cons.prems obtain a where a: "loads (function_arguments tc) = Inr a"
    by auto
  obtain tasks1 r where d: "dispatch lower (function_name tc) a tasks = (tasks1, r)"
    by (cases "dispatch lower (function_name tc) a tasks")
  define res where "res = (case r of Inl exc \<Rightarrow> error_result exc | Inr x \<Rightarrow> x)"
  from Cons.prems have "\<forall>tc \<in> set tcs. \<exists>a. loads (function_arguments tc) = Inr a"
    by simp
  from Cons.IH [OF this, of tasks1 "messages @ [Tool (call_id tc) res]"]
  obtain tasks' results where
    h: "length results = length tcs"
      "run_tool_calls lower loads tcs tasks1 (messages @ [Tool (call_id tc) res]) =
         (tasks', Inr ((messages @ [Tool (call_id tc) res]) @
            map (\<lambda>(tc, r). Tool (call_id tc) r) (zip tcs results)))"
    by blast
  have "length (res # results) = length (tc # tcs)"
    using h(1) by simp
  moreover have "run_tool_calls lower loads (tc # tcs) tasks messages =
      (tasks', Inr (messages @ map (\<lambda>(tc, r). Tool (call_id tc) r) (zip (tc # tcs) (res # results))))"
    using a d h(2) by (simp add: res_def)
  ultimately show ?case
    by blast
qed

text \<open>
  Claim C1. The loop runs the calls in order and turns every exception of \<open>dispatch\<close> into
  an error result (\<open>run_tool_calls_all_decoded\<close>), but \<^verbatim>\<open>json.loads\<close> stands before the
  \<^verbatim>\<open>try\<close>: a payload that is not JSON raises out of the loop. Here the model asks for two
  calls and the first payload is \<^verbatim>\<open>{\<close>: the round ends with that exception, no tool message
  is appended, the second call is never run and the second model round is never asked.
\<close>

theorem undecodable_payload_aborts_round:
  "run_tool_calls ascii_lower
     (\<lambda>p. if p = ''{}'' then Inr []
          else Inl (JSONDecodeError ''Expecting property name enclosed in double quotes''))
     [\<lparr>call_id = ''call_1'', function_name = ''get_tasks'', function_arguments = ''{''\<rparr>,
      \<lparr>call_id = ''call_2'', function_name = ''get_tasks'', function_arguments = ''{}''\<rparr>]
     [] []
   = ([], Inl (JSONDecodeError ''Expecting property name enclosed in double quotes'')) \<and>
   agent ascii_lower
     (\<lambda>messages tools. Inr \<lparr>content = None, tool_calls =
        [\<lparr>call_id = ''call_1'', function_name = ''get_tasks'', function_arguments = ''{''\<rparr>,
         \<lparr>call_id = ''call_2'', function_name = ''get_tasks'', function_arguments = ''{}''\<rparr>]\<rparr>)
     (\<lambda>p. if p = ''{}'' then Inr []
          else Inl (JSONDecodeError ''Expecting property name enclosed in double quotes''))
     ''list my tasks'' []
   = ([], Inl (JSONDecodeError ''Expecting property name enclosed in double quotes''))"
  by (simp add: agent_def)

section \<open>The add_task tool\<close>

lemma dispatch_add_task_error: "coerce_add args = Inl e \<Longrightarrow> dispatch lower ''add_task'' args tasks = (tasks, Inl e)"
  by (simp add: dispatch_def)

lemma coerce_add_type_error:
  "in_dict ''type'' args \<Longrightarrow> TaskType_call (get args ''type'') = Inl e \<Longrightarrow> coerce_add args = Inl e"
  by (simp add: coerce_add_def)

text \<open>
  Claim C3, as the code has it. An \<open>add_task\<close> call whose \<open>type\<close> is supplied and is no
  member of the enum fails with the enum's \<^verbatim>\<open>ValueError\<close> and creates nothing. A call that
  supplies \<open>code\<close> and \<open>title\<close>, no key outside the seven parameters, and whose supplied
  \<open>type\<close>, \<open>status\<close> and dates coerce, appends one task and returns its field map: the type
  is \<open>task\<close> when \<open>type\<close> is absent, the status \<open>pending\<close> when \<open>status\<close> is absent, the
  description empty when absent, and an absent date is \<^verbatim>\<open>None\<close>.
\<close>

theorem add_task_defaults:
  "(in_dict ''type'' args \<and> TaskType_call (get args ''type'') = Inl e \<longrightarrow>
      dispatch lower ''add_task'' args tasks = (tasks, Inl e)) \<and>
   (set (map fst args) \<subseteq> {''code'', ''title'', ''description'', ''type'', ''start_date'',
                              ''due_date'', ''status''} \<and>
    in_dict ''code'' args \<and> in_dict ''title'' args \<and>
    (in_dict ''type'' args \<longrightarrow> TaskType_call (get args ''type'') = Inr ty) \<and>
    (in_dict ''status'' args \<longrightarrow> TaskStatus_call (get args ''status'') = Inr st) \<and>
    parse_date (get args ''start_date'') = Inr sd \<and>
    parse_date (get args ''due_date'') = Inr dd \<longrightarrow>
      dispatch lower ''add_task'' args tasks =
        (tasks @ [\<lparr>code = get args ''code'', title = get args ''title'',
                    description = (if in_dict ''description'' args then get args ''description''
                                   else JStr []),
                    type = (if in_dict ''type'' args then ty else TASK),
                    start_date = sd, due_date = dd,
                    status = (if in_dict ''status'' args then st else PENDING)\<rparr>],
         Inr (Dict (to_dict \<lparr>code = get args ''code'', title = get args ''title'',
                    description = (if in_dict ''description'' args then get args ''description''
                                   else JStr []),
                    type = (if in_dict ''type'' args then ty else TASK),
                    start_date = sd, due_date = dd,
                    status = (if in_dict ''status'' args then st else PENDING)\<rparr>))) \<and>
      (\<not> in_dict ''start_date'' args \<longrightarrow> sd = None) \<and>
      (\<not> in_dict ''due_date'' args \<longrightarrow> dd = None))"
proof (intro conjI impI)
  assume "in_dict ''type'' args \<and> TaskType_call (get args ''type'') = Inl e"
  then show "dispatch lower ''add_task'' args tasks = (tasks, Inl e)"
    by (simp add: dispatch_add_task_error coerce_add_type_error)
next
  assume h: "set (map fst args) \<subseteq> {''code'', ''title'', ''description'', ''type'', ''start_date'',
                              ''due_date'', ''status''} \<and>
    in_dict ''code'' args \<and> in_dict ''title'' args \<and>
    (in_dict ''type'' args \<longrightarrow> TaskType_call (get args ''type'') = Inr ty) \<and>
    (in_dict ''status'' args \<longrightarrow> TaskStatus_call (get args ''status'') = Inr st) \<and>
    parse_date (get args ''start_date'') = Inr sd \<and>
    parse_date (get args ''due_date'') = Inr dd"
  have ty: "(if in_dict ''type'' args then TaskType_call (get args ''type'') else Inr TASK)
      = Inr (if in_dict ''type'' args then ty else TASK)"
    using h by simp
  have st: "(if in_dict ''status'' args then TaskStatus_call (get args ''status'') else Inr PENDING)
      = Inr (if in_dict ''status'' args then st else PENDING)"
    using h by simp
  have sd: "parse_date (get args ''start_date'') = Inr sd"
    and dd: "parse_date (get args ''due_date'') = Inr dd"
    using h by simp_all
  have keys: "find (\<lambda>k. k \<notin> set [''code'', ''title'', ''description'', ''type'', ''start_date'',
                                  ''due_date'', ''status'']) (map fst args) = None"
    using h by (auto simp: find_None_iff)
  have req: "filter (\<lambda>k. \<not> in_dict k args) [''code'', ''title''] = []"
    using h by simp
  show "dispatch lower ''add_task'' args tasks =
        (tasks @ [\<lparr>code = get args ''code'', title = get args ''title'',
                    description = (if in_dict ''description'' args then get args ''description''
                                   else JStr []),
                    type = (if in_dict ''type'' args then ty else TASK),
                    start_date = sd, due_date = dd,
                    status = (if in_dict ''status'' args then st else PENDING)\<rparr>],
         Inr (Dict (to_dict \<lparr>code = get args ''code'', title = get args ''title'',
                    description = (if in_dict ''description'' args then get args ''description''
                                   else JStr []),
                    type = (if in_dict ''type'' args then ty else TASK),
                    start_date = sd, due_date = dd,
                    status = (if in_dict ''status'' args then st else PENDING)\<rparr>)))"
    unfolding dispatch_add_task_closed [OF ty st sd dd] keys req by simp
  show "sd = None" if "\<not> in_dict ''start_date'' args"
    using that sd by (simp add: get_not_in_dict)
  show "dd = None" if "\<not> in_dict ''due_date'' args"
    using that dd by (simp add: get_not_in_dict)
qed

theorem add_task_defaults_witness:
  "dispatch ascii_lower ''add_task'' [(''code'', JStr ''TASK-001''), (''title'', JStr ''Fix login bug'')] []
   = ([\<lparr>code = JStr ''TASK-001'', title = JStr ''Fix login bug'', description = JStr [],
         type = TASK, start_date = None, due_date = None, status = PENDING\<rparr>],
      Inr (Dict [(''code'', JStr ''TASK-001''), (''title'', JStr ''Fix login bug''),
                 (''description'', JStr []), (''type'', JStr ''task''),
                 (''start_date'', JNull), (''due_date'', JNull),
                 (''status'', JStr ''pending'')]))"
  using add_task_defaults
    [where args = "[(''code'', JStr ''TASK-001''), (''title'', JStr ''Fix login bug'')]"
       and tasks = "[]" and ty = TASK and st = PENDING and sd = None and dd = None
       and lower = ascii_lower]
  by (simp add: in_dict_def get_def to_dict_def date_json_def)

theorem add_task_invalid_type_counterexample:
  "dispatch ascii_lower ''add_task''
     [(''code'', JStr ''TASK-001''), (''title'', JStr ''Fix login bug''), (''type'', JStr ''urgent'')]
     []
   = ([], Inl (ValueError (CHR 0x27 # ''urgent'' @ CHR 0x27 # '' is not a valid TaskType'')))"
  by (simp add: dispatch_def coerce_add_def in_dict_def get_def TaskType_call_def py_repr_def Let_def
      repr_char_def)

section \<open>The update_task call in terms of the arguments sent\<close>

lemma map_of_filter_distinct:
  "distinct (map fst al) \<Longrightarrow>
   map_of (filter P al) k = (case map_of al k of Some v \<Rightarrow> if P (k, v) then Some v else None
                                                | None \<Rightarrow> None)"
proof (induction al)
  case Nil
  then show ?case by simp
next
  case (Cons a al)
  obtain k' v' where a: "a = (k', v')" by (cases a)
  show ?case
  proof (cases "k' = k")
    case True
    with Cons.prems a have "k \<notin> fst ` set al" by auto
    then have "map_of al k = None" "map_of (filter P al) k = None"
      by (auto simp: map_of_eq_None_iff)
    with True a show ?thesis by simp
  next
    case False
    with Cons a show ?thesis by simp
  qed
qed

lemma map_of_drop_none:
  "distinct (map fst kw) \<Longrightarrow>
   map_of (drop_none kw) k =
     (case map_of kw k of Some v \<Rightarrow> if v \<noteq> PJson JNull \<or> k = ''code'' then Some v else None
                         | None \<Rightarrow> None)"
  unfolding drop_none_def by (auto simp: map_of_filter_distinct split: option.split)

lemma find_keys_filter_update:
  "\<not> P k \<Longrightarrow> find P (map fst (filter Q (AList.update k v al))) = find P (map fst (filter Q al))"
  by (induction al) auto

lemma find_keys_drop_none_update:
  "\<not> P k \<Longrightarrow> find P (map fst (drop_none (AList.update k v al))) = find P (map fst (drop_none al))"
  unfolding drop_none_def by (rule find_keys_filter_update)

lemma keys_drop_none_of_json:
  "map fst (drop_none (of_json args)) = map fst (filter (\<lambda>(k, v). v \<noteq> JNull \<or> k = ''code'') args)"
  by (induction args) (auto simp: drop_none_def of_json_def)

lemma in_dict_drop_none_code: "in_dict ''code'' (drop_none kw) = in_dict ''code'' kw"
  by (induction kw) (auto simp: drop_none_def in_dict_def)


lemma call_update_task_coerced:
  fixes args :: json_object and ty st sd dd
  defines "kw \<equiv> AList.update ''due_date'' (date_value dd)
                (AList.update ''start_date'' (date_value sd)
                  ((case st of Some s \<Rightarrow> AList.update ''status'' (PStatus s) | None \<Rightarrow> id)
                    ((case ty of Some y \<Rightarrow> AList.update ''type'' (PType y) | None \<Rightarrow> id)
                       (of_json args))))"
  assumes d: "distinct (map fst args)"
  shows "call_update_task (drop_none kw) tasks =
     (case find (\<lambda>k. k \<notin> set [''code'', ''title'', ''description'', ''type'', ''start_date'',
                                  ''due_date'', ''status''])
             (map fst (filter (\<lambda>(k, v). v \<noteq> JNull \<or> k = ''code'') args)) of
        Some k \<Rightarrow> (tasks, Inl (unexpected_keyword ''update_task'' k))
      | None \<Rightarrow>
          if in_dict ''code'' args
          then update_task (get args ''code'') (get args ''title'') (get args ''description'')
                 ty sd dd st tasks
          else (tasks, Inl (missing_arguments ''update_task'' [''code''])))"
proof -
  let ?P = "\<lambda>k. k \<notin> set [''code'', ''title'', ''description'', ''type'', ''start_date'',
                                  ''due_date'', ''status'']"
  have keys: "find ?P (map fst (drop_none kw)) =
      find ?P (map fst (filter (\<lambda>(k, v). v \<noteq> JNull \<or> k = ''code'') args))"
    unfolding kw_def
    by (cases ty; cases st)
       (simp_all add: find_keys_drop_none_update keys_drop_none_of_json)
  have ind: "in_dict ''code'' (drop_none kw) = in_dict ''code'' args"
    unfolding kw_def
    by (cases ty; cases st)
       (simp_all add: in_dict_drop_none_code in_dict_update in_dict_of_json)
  have dk: "distinct (map fst kw)"
    unfolding kw_def using d
    by (cases ty; cases st) (simp_all add: distinct_update keys_of_json)
  have m: "\<And>k. k \<in> {''code'', ''title'', ''description''} \<Longrightarrow>
      map_of kw k = map_option PJson (map_of args k)"
    unfolding kw_def
    by (cases ty; cases st) (auto simp: update_conv' map_of_of_json)
  have texts: "text_arg (drop_none kw) ''code'' JNull = get args ''code''"
    "text_arg (drop_none kw) ''title'' JNull = get args ''title''"
    "text_arg (drop_none kw) ''description'' JNull = get args ''description''"
    by (simp_all add: text_arg_def map_of_drop_none [OF dk] m get_def split: option.split)
  have mt: "map_of kw ''type'' =
      (case ty of Some y \<Rightarrow> Some (PType y) | None \<Rightarrow> map_option PJson (map_of args ''type''))"
    unfolding kw_def
    by (cases ty; cases st) (simp_all add: update_conv' map_of_of_json)
  have ms: "map_of kw ''status'' =
      (case st of Some s \<Rightarrow> Some (PStatus s) | None \<Rightarrow> map_option PJson (map_of args ''status''))"
    unfolding kw_def
    by (cases ty; cases st) (simp_all add: update_conv' map_of_of_json)
  have md: "map_of kw ''start_date'' = Some (date_value sd)"
    "map_of kw ''due_date'' = Some (date_value dd)"
    unfolding kw_def by (simp_all add: update_conv')
  have typed: "type_arg (drop_none kw) = ty" "status_arg (drop_none kw) = st"
    "date_arg (drop_none kw) ''start_date'' = sd" "date_arg (drop_none kw) ''due_date'' = dd"
    by (auto simp: type_arg_def status_arg_def date_arg_def map_of_drop_none [OF dk] mt ms md
        date_value_def split: option.split)
  show ?thesis
  proof (cases "find ?P (map fst (filter (\<lambda>(k, v). v \<noteq> JNull \<or> k = ''code'') args))")
    case (Some k)
    then show ?thesis
      unfolding call_update_task_def call_check_def keys by simp
  next
    case None
    then show ?thesis
      unfolding call_update_task_def call_check_def keys
      by (simp add: ind texts typed)
  qed
qed


lemma dispatch_update_task_total:
  assumes "distinct (map fst args)"
  shows "dispatch lower ''update_task'' args tasks =
     (case (if in_dict ''type'' args
            then (case TaskType_call (get args ''type'') of Inl e \<Rightarrow> Inl e | Inr y \<Rightarrow> Inr (Some y))
            else Inr None) of
        Inl e \<Rightarrow> (tasks, Inl e)
      | Inr ty \<Rightarrow>
     (case (if in_dict ''status'' args
            then (case TaskStatus_call (get args ''status'') of Inl e \<Rightarrow> Inl e | Inr s \<Rightarrow> Inr (Some s))
            else Inr None) of
        Inl e \<Rightarrow> (tasks, Inl e)
      | Inr st \<Rightarrow>
     (case parse_date (get args ''start_date'') of
        Inl e \<Rightarrow> (tasks, Inl e)
      | Inr sd \<Rightarrow>
     (case parse_date (get args ''due_date'') of
        Inl e \<Rightarrow> (tasks, Inl e)
      | Inr dd \<Rightarrow> task_result
     (case find (\<lambda>k. k \<notin> set [''code'', ''title'', ''description'', ''type'', ''start_date'',
                                  ''due_date'', ''status''])
             (map fst (filter (\<lambda>(k, v). v \<noteq> JNull \<or> k = ''code'') args)) of
        Some k \<Rightarrow> (tasks, Inl (unexpected_keyword ''update_task'' k))
      | None \<Rightarrow>
          if in_dict ''code'' args
          then update_task (get args ''code'') (get args ''title'') (get args ''description'')
                 ty sd dd st tasks
          else (tasks, Inl (missing_arguments ''update_task'' [''code''])))))))"
proof -
  note c = call_update_task_coerced [OF assms]
  note c1 = c [where ty = "Some y" and st = "Some s" for y s, simplified]
  note c2 = c [where ty = "Some y" and st = None for y, simplified]
  note c3 = c [where ty = None and st = "Some s" for s, simplified]
  note c4 = c [where ty = None and st = None, simplified]
  show ?thesis
    unfolding dispatch_def coerce_update_def
    by (simp add: c1 c2 c3 c4 split: sum.split)
qed

section \<open>The update_task tool\<close>

lemma replace_first_nth:
  "length (replace_first c new tasks) = length tasks \<and>
   (\<forall>i < length tasks. replace_first c new tasks ! i = tasks ! i \<or>
      (find (\<lambda>t. code t = c) tasks = Some (tasks ! i) \<and> replace_first c new tasks ! i = new))"
proof (induction tasks)
  case Nil
  then show ?case by simp
next
  case (Cons a tasks)
  show ?case
  proof (cases "code a = c")
    case True
    then show ?thesis by (auto simp: nth_Cons split: nat.split)
  next
    case False
    with Cons show ?thesis by (auto simp: nth_Cons split: nat.split)
  qed
qed

lemma update_task_effect:
  "length (fst (update_task c ti de ty sd dd st tasks)) = length tasks \<and>
   (\<forall>i < length tasks.
      fst (update_task c ti de ty sd dd st tasks) ! i = tasks ! i \<or>
      fst (update_task c ti de ty sd dd st tasks) ! i = set_fields ti de ty sd dd st (tasks ! i))"
proof (cases "find (\<lambda>t. code t = c) tasks")
  case None
  then show ?thesis by (simp add: update_task_def)
next
  case (Some t)
  then show ?thesis
    using replace_first_nth [of c "set_fields ti de ty sd dd st t" tasks]
    by (auto simp: update_task_def Let_def)
qed

lemma set_fields_simps:
  "code (set_fields ti de ty sd dd st t) = code t"
  "title (set_fields ti de ty sd dd st t) = (if ti \<noteq> JNull then ti else title t)"
  "description (set_fields ti de ty sd dd st t) = (if de \<noteq> JNull then de else description t)"
  "type (set_fields ti de ty sd dd st t) = (case ty of Some y \<Rightarrow> y | None \<Rightarrow> type t)"
  "start_date (set_fields ti de ty sd dd st t) = (case sd of Some d \<Rightarrow> Some d | None \<Rightarrow> start_date t)"
  "due_date (set_fields ti de ty sd dd st t) = (case dd of Some d \<Rightarrow> Some d | None \<Rightarrow> due_date t)"
  "status (set_fields ti de ty sd dd st t) = (case st of Some s \<Rightarrow> s | None \<Rightarrow> status t)"
  by (simp_all add: set_fields_def Let_def split: option.split)

lemma task_result_fst: "fst (task_result p) = fst p"
  by (cases p) (simp add: task_result_def split: sum.split)

text \<open>
  What one \<open>update_task\<close> call can do to the store: it keeps the length, and each task is
  either left as it is or gets the fields the call supplies, where \<open>ty\<close>, \<open>st\<close>, \<open>sd\<close> and
  \<open>dd\<close> are what the supplied enum and date arguments coerce to.
\<close>

lemma dispatch_update_task_effect:
  assumes "distinct (map fst args)"
  shows "length (fst (dispatch lower ''update_task'' args tasks)) = length tasks \<and>
     (fst (dispatch lower ''update_task'' args tasks) = tasks \<or>
      (\<exists>ty st sd dd.
         (ty = None \<longleftrightarrow> \<not> in_dict ''type'' args) \<and>
         (st = None \<longleftrightarrow> \<not> in_dict ''status'' args) \<and>
         parse_date (get args ''start_date'') = Inr sd \<and>
         parse_date (get args ''due_date'') = Inr dd \<and>
         (\<forall>i < length tasks.
            fst (dispatch lower ''update_task'' args tasks) ! i = tasks ! i \<or>
            fst (dispatch lower ''update_task'' args tasks) ! i =
              set_fields (get args ''title'') (get args ''description'') ty sd dd st (tasks ! i))))"
proof -
  define T where "T = (if in_dict ''type'' args
            then (case TaskType_call (get args ''type'') of Inl e \<Rightarrow> Inl e | Inr y \<Rightarrow> Inr (Some y))
            else Inr None)"
  define S where "S = (if in_dict ''status'' args
            then (case TaskStatus_call (get args ''status'') of Inl e \<Rightarrow> Inl e | Inr s \<Rightarrow> Inr (Some s))
            else Inr None)"
  note total = dispatch_update_task_total [OF assms, of lower tasks, folded T_def S_def]
  have unchanged: ?thesis if "fst (dispatch lower ''update_task'' args tasks) = tasks"
    using that by simp
  show ?thesis
  proof (cases T)
    case (Inl e)
    then show ?thesis by (intro unchanged) (simp add: total)
  next
    case ty: (Inr ty)
    show ?thesis
    proof (cases S)
      case (Inl e)
      with ty show ?thesis by (intro unchanged) (simp add: total)
    next
      case st: (Inr st)
      show ?thesis
      proof (cases "parse_date (get args ''start_date'')")
        case (Inl e)
        with ty st show ?thesis by (intro unchanged) (simp add: total)
      next
        case sd: (Inr sd)
        show ?thesis
        proof (cases "parse_date (get args ''due_date'')")
          case (Inl e)
          with ty st sd show ?thesis by (intro unchanged) (simp add: total)
        next
          case dd: (Inr dd)
          have tyn: "ty = None \<longleftrightarrow> \<not> in_dict ''type'' args"
            using ty unfolding T_def by (auto split: if_splits sum.splits)
          have stn: "st = None \<longleftrightarrow> \<not> in_dict ''status'' args"
            using st unfolding S_def by (auto split: if_splits sum.splits)
          let ?u = "update_task (get args ''code'') (get args ''title'') (get args ''description'')
                      ty sd dd st tasks"
          have "fst (dispatch lower ''update_task'' args tasks) = tasks \<or>
                fst (dispatch lower ''update_task'' args tasks) = fst ?u"
            using ty st sd dd by (simp add: total task_result_fst split: option.split)
          then show ?thesis
          proof
            assume "fst (dispatch lower ''update_task'' args tasks) = tasks"
            then show ?thesis by (rule unchanged)
          next
            assume u: "fst (dispatch lower ''update_task'' args tasks) = fst ?u"
            from update_task_effect [of "get args ''code''" "get args ''title''"
                "get args ''description''" ty sd dd st tasks]
            have len: "length (fst ?u) = length tasks"
              and each: "\<forall>i < length tasks. fst ?u ! i = tasks ! i \<or>
                  fst ?u ! i = set_fields (get args ''title'') (get args ''description'')
                                 ty sd dd st (tasks ! i)"
              by blast+
            from tyn stn sd dd each u
            have "\<exists>ty st sd dd.
                (ty = None \<longleftrightarrow> \<not> in_dict ''type'' args) \<and>
                (st = None \<longleftrightarrow> \<not> in_dict ''status'' args) \<and>
                parse_date (get args ''start_date'') = Inr sd \<and>
                parse_date (get args ''due_date'') = Inr dd \<and>
                (\<forall>i < length tasks.
                   fst (dispatch lower ''update_task'' args tasks) ! i = tasks ! i \<or>
                   fst (dispatch lower ''update_task'' args tasks) ! i =
                     set_fields (get args ''title'') (get args ''description'') ty sd dd st (tasks ! i))"
              by metis
            with len u show ?thesis by simp
          qed
        qed
      qed
    qed
  qed
qed


text \<open>
  Claim C2, as the code has it. The dispatcher coerces the arguments, and a coercion that
  fails is the outcome of the call, the store untouched. Otherwise it removes from the
  coerced dictionary every entry whose value is \<^verbatim>\<open>None\<close>, the entry \<open>code\<close> apart, and calls the
  store's update with what is left. So an \<open>update_task\<close> call keeps the number of tasks and
  every task's code; a field whose argument is absent or null (for a date also: the empty
  string) keeps its value in every task; and no title, description or date that holds a
  value is set to \<^verbatim>\<open>None\<close>. The empty string is not \<^verbatim>\<open>None\<close>: a title or description sent as
  \<^verbatim>\<open>""\<close> is stored.
\<close>

theorem update_task_keeps_unsupplied_fields:
  assumes "distinct (map fst args)"
  shows "(\<forall>e. coerce_update args = Inl e \<longrightarrow>
            dispatch lower ''update_task'' args tasks = (tasks, Inl e)) \<and>
         (\<forall>kw. coerce_update args = Inr kw \<longrightarrow>
            dispatch lower ''update_task'' args tasks =
              task_result (call_update_task
                 (filter (\<lambda>(k, v). v \<noteq> PJson JNull \<or> k = ''code'') kw) tasks)) \<and>
         length (fst (dispatch lower ''update_task'' args tasks)) = length tasks \<and>
         (\<forall>i < length tasks.
            code (fst (dispatch lower ''update_task'' args tasks) ! i) = code (tasks ! i) \<and>
            (get args ''title'' = JNull \<longrightarrow> title (fst (dispatch lower ''update_task'' args tasks) ! i) = title (tasks ! i)) \<and>
            (get args ''description'' = JNull \<longrightarrow>
               description (fst (dispatch lower ''update_task'' args tasks) ! i) = description (tasks ! i)) \<and>
            (get args ''type'' = JNull \<longrightarrow> type (fst (dispatch lower ''update_task'' args tasks) ! i) = type (tasks ! i)) \<and>
            (get args ''status'' = JNull \<longrightarrow> status (fst (dispatch lower ''update_task'' args tasks) ! i) = status (tasks ! i)) \<and>
            (get args ''start_date'' = JNull \<or> get args ''start_date'' = JStr [] \<longrightarrow>
               start_date (fst (dispatch lower ''update_task'' args tasks) ! i) = start_date (tasks ! i)) \<and>
            (get args ''due_date'' = JNull \<or> get args ''due_date'' = JStr [] \<longrightarrow>
               due_date (fst (dispatch lower ''update_task'' args tasks) ! i) = due_date (tasks ! i)) \<and>
            (title (tasks ! i) \<noteq> JNull \<longrightarrow> title (fst (dispatch lower ''update_task'' args tasks) ! i) \<noteq> JNull) \<and>
            (description (tasks ! i) \<noteq> JNull \<longrightarrow> description (fst (dispatch lower ''update_task'' args tasks) ! i) \<noteq> JNull) \<and>
            (start_date (tasks ! i) \<noteq> None \<longrightarrow> start_date (fst (dispatch lower ''update_task'' args tasks) ! i) \<noteq> None) \<and>
            (due_date (tasks ! i) \<noteq> None \<longrightarrow> due_date (fst (dispatch lower ''update_task'' args tasks) ! i) \<noteq> None))"
proof -
  have failing: "\<forall>e. coerce_update args = Inl e \<longrightarrow>
            dispatch lower ''update_task'' args tasks = (tasks, Inl e)"
    by (simp add: dispatch_def)
  have filtered: "\<forall>kw. coerce_update args = Inr kw \<longrightarrow>
            dispatch lower ''update_task'' args tasks =
              task_result (call_update_task
                 (filter (\<lambda>(k, v). v \<noteq> PJson JNull \<or> k = ''code'') kw) tasks)"
    by (simp add: dispatch_def drop_none_def)
  have null_type: "fst (dispatch lower ''update_task'' args tasks) = tasks"
    if "in_dict ''type'' args" "get args ''type'' = JNull"
    using that unfolding dispatch_def coerce_update_def
    by (simp add: TaskType_call_def)
  have null_status: "fst (dispatch lower ''update_task'' args tasks) = tasks"
    if "in_dict ''status'' args" "get args ''status'' = JNull"
    using that unfolding dispatch_def coerce_update_def
    by (simp add: TaskStatus_call_def split: sum.split)
  from dispatch_update_task_effect [OF assms, of lower tasks]
  have len: "length (fst (dispatch lower ''update_task'' args tasks)) = length tasks"
    and eff: "fst (dispatch lower ''update_task'' args tasks) = tasks \<or>
      (\<exists>ty st sd dd.
         (ty = None \<longleftrightarrow> \<not> in_dict ''type'' args) \<and>
         (st = None \<longleftrightarrow> \<not> in_dict ''status'' args) \<and>
         parse_date (get args ''start_date'') = Inr sd \<and>
         parse_date (get args ''due_date'') = Inr dd \<and>
         (\<forall>i < length tasks.
            fst (dispatch lower ''update_task'' args tasks) ! i = tasks ! i \<or>
            fst (dispatch lower ''update_task'' args tasks) ! i =
              set_fields (get args ''title'') (get args ''description'') ty sd dd st (tasks ! i)))"
    by blast+
  have fields: "(\<forall>i < length tasks.
            code (fst (dispatch lower ''update_task'' args tasks) ! i) = code (tasks ! i) \<and>
            (get args ''title'' = JNull \<longrightarrow> title (fst (dispatch lower ''update_task'' args tasks) ! i) = title (tasks ! i)) \<and>
            (get args ''description'' = JNull \<longrightarrow>
               description (fst (dispatch lower ''update_task'' args tasks) ! i) = description (tasks ! i)) \<and>
            (get args ''type'' = JNull \<longrightarrow> type (fst (dispatch lower ''update_task'' args tasks) ! i) = type (tasks ! i)) \<and>
            (get args ''status'' = JNull \<longrightarrow> status (fst (dispatch lower ''update_task'' args tasks) ! i) = status (tasks ! i)) \<and>
            (get args ''start_date'' = JNull \<or> get args ''start_date'' = JStr [] \<longrightarrow>
               start_date (fst (dispatch lower ''update_task'' args tasks) ! i) = start_date (tasks ! i)) \<and>
            (get args ''due_date'' = JNull \<or> get args ''due_date'' = JStr [] \<longrightarrow>
               due_date (fst (dispatch lower ''update_task'' args tasks) ! i) = due_date (tasks ! i)) \<and>
            (title (tasks ! i) \<noteq> JNull \<longrightarrow> title (fst (dispatch lower ''update_task'' args tasks) ! i) \<noteq> JNull) \<and>
            (description (tasks ! i) \<noteq> JNull \<longrightarrow> description (fst (dispatch lower ''update_task'' args tasks) ! i) \<noteq> JNull) \<and>
            (start_date (tasks ! i) \<noteq> None \<longrightarrow> start_date (fst (dispatch lower ''update_task'' args tasks) ! i) \<noteq> None) \<and>
            (due_date (tasks ! i) \<noteq> None \<longrightarrow> due_date (fst (dispatch lower ''update_task'' args tasks) ! i) \<noteq> None))"
  proof (cases "fst (dispatch lower ''update_task'' args tasks) = tasks")
    case True
    then show ?thesis by simp
  next
    case False
    with null_type null_status
    have tyk: "get args ''type'' = JNull \<Longrightarrow> \<not> in_dict ''type'' args"
      and stk: "get args ''status'' = JNull \<Longrightarrow> \<not> in_dict ''status'' args"
      by blast+
    from False eff have "\<exists>ty st sd dd.
         (ty = None \<longleftrightarrow> \<not> in_dict ''type'' args) \<and>
         (st = None \<longleftrightarrow> \<not> in_dict ''status'' args) \<and>
         parse_date (get args ''start_date'') = Inr sd \<and>
         parse_date (get args ''due_date'') = Inr dd \<and>
         (\<forall>i < length tasks.
            fst (dispatch lower ''update_task'' args tasks) ! i = tasks ! i \<or>
            fst (dispatch lower ''update_task'' args tasks) ! i =
              set_fields (get args ''title'') (get args ''description'') ty sd dd st (tasks ! i))"
      by blast
    then obtain ty st sd dd where
      ty: "ty = None \<longleftrightarrow> \<not> in_dict ''type'' args" and
      st: "st = None \<longleftrightarrow> \<not> in_dict ''status'' args" and
      sd: "parse_date (get args ''start_date'') = Inr sd" and
      dd: "parse_date (get args ''due_date'') = Inr dd" and
      each: "\<forall>i < length tasks.
            fst (dispatch lower ''update_task'' args tasks) ! i = tasks ! i \<or>
            fst (dispatch lower ''update_task'' args tasks) ! i =
              set_fields (get args ''title'') (get args ''description'') ty sd dd st (tasks ! i)"
      by blast
    have sdn: "sd = None" if "get args ''start_date'' = JNull \<or> get args ''start_date'' = JStr []"
      using that sd by auto
    have ddn: "dd = None" if "get args ''due_date'' = JNull \<or> get args ''due_date'' = JStr []"
      using that dd by auto
    show ?thesis
    proof (intro allI impI)
      fix i
      assume "i < length tasks"
      with each have "fst (dispatch lower ''update_task'' args tasks) ! i = tasks ! i \<or>
            fst (dispatch lower ''update_task'' args tasks) ! i =
              set_fields (get args ''title'') (get args ''description'') ty sd dd st (tasks ! i)"
        by blast
      then show "code (fst (dispatch lower ''update_task'' args tasks) ! i) = code (tasks ! i) \<and>
            (get args ''title'' = JNull \<longrightarrow> title (fst (dispatch lower ''update_task'' args tasks) ! i) = title (tasks ! i)) \<and>
            (get args ''description'' = JNull \<longrightarrow>
               description (fst (dispatch lower ''update_task'' args tasks) ! i) = description (tasks ! i)) \<and>
            (get args ''type'' = JNull \<longrightarrow> type (fst (dispatch lower ''update_task'' args tasks) ! i) = type (tasks ! i)) \<and>
            (get args ''status'' = JNull \<longrightarrow> status (fst (dispatch lower ''update_task'' args tasks) ! i) = status (tasks ! i)) \<and>
            (get args ''start_date'' = JNull \<or> get args ''start_date'' = JStr [] \<longrightarrow>
               start_date (fst (dispatch lower ''update_task'' args tasks) ! i) = start_date (tasks ! i)) \<and>
            (get args ''due_date'' = JNull \<or> get args ''due_date'' = JStr [] \<longrightarrow>
               due_date (fst (dispatch lower ''update_task'' args tasks) ! i) = due_date (tasks ! i)) \<and>
            (title (tasks ! i) \<noteq> JNull \<longrightarrow> title (fst (dispatch lower ''update_task'' args tasks) ! i) \<noteq> JNull) \<and>
            (description (tasks ! i) \<noteq> JNull \<longrightarrow> description (fst (dispatch lower ''update_task'' args tasks) ! i) \<noteq> JNull) \<and>
            (start_date (tasks ! i) \<noteq> None \<longrightarrow> start_date (fst (dispatch lower ''update_task'' args tasks) ! i) \<noteq> None) \<and>
            (due_date (tasks ! i) \<noteq> None \<longrightarrow> due_date (fst (dispatch lower ''update_task'' args tasks) ! i) \<noteq> None)"
      proof
        assume "fst (dispatch lower ''update_task'' args tasks) ! i = tasks ! i"
        then show ?thesis by simp
      next
        assume "fst (dispatch lower ''update_task'' args tasks) ! i =
              set_fields (get args ''title'') (get args ''description'') ty sd dd st (tasks ! i)"
        then show ?thesis
          using ty st tyk stk sdn ddn by (auto simp: set_fields_simps split: option.split)
      qed
    qed
  qed
  from failing filtered len fields show ?thesis
    by (intro conjI)
qed

theorem update_task_keeps_unsupplied_fields_witness:
  "distinct (map fst [(''code'', JStr ''TASK-001''), (''status'', JStr ''done''), (''title'', JNull),
      (''start_date'', JStr [])]) \<and>
   dispatch ascii_lower ''update_task''
     [(''code'', JStr ''TASK-001''), (''status'', JStr ''done''), (''title'', JNull),
      (''start_date'', JStr [])]
     [\<lparr>code = JStr ''TASK-001'', title = JStr ''Fix login bug'',
        description = JStr ''Login fails'', type = BUG,
        start_date = Some \<lparr>year = 2024, month = 1, day = 5\<rparr>, due_date = None,
        status = PENDING\<rparr>]
   = ([\<lparr>code = JStr ''TASK-001'', title = JStr ''Fix login bug'',
        description = JStr ''Login fails'', type = BUG,
        start_date = Some \<lparr>year = 2024, month = 1, day = 5\<rparr>, due_date = None,
        status = DONE\<rparr>],
      Inr (Dict [(''code'', JStr ''TASK-001''), (''title'', JStr ''Fix login bug''),
                 (''description'', JStr ''Login fails''), (''type'', JStr ''bug''),
                 (''start_date'', JStr ''2024-01-05''), (''due_date'', JNull),
                 (''status'', JStr ''done'')])) \<and>
   length (fst (dispatch ascii_lower ''update_task''
     [(''code'', JStr ''TASK-001''), (''status'', JStr ''done''), (''title'', JNull),
      (''start_date'', JStr [])]
     [\<lparr>code = JStr ''TASK-001'', title = JStr ''Fix login bug'',
        description = JStr ''Login fails'', type = BUG,
        start_date = Some \<lparr>year = 2024, month = 1, day = 5\<rparr>, due_date = None,
        status = PENDING\<rparr>])) = 1"
proof -
  have d: "distinct (map fst [(''code'', JStr ''TASK-001''), (''status'', JStr ''done''), (''title'', JNull),
      (''start_date'', JStr [])])"
    by simp
  have "dispatch ascii_lower ''update_task''
     [(''code'', JStr ''TASK-001''), (''status'', JStr ''done''), (''title'', JNull),
      (''start_date'', JStr [])]
     [\<lparr>code = JStr ''TASK-001'', title = JStr ''Fix login bug'',
        description = JStr ''Login fails'', type = BUG,
        start_date = Some \<lparr>year = 2024, month = 1, day = 5\<rparr>, due_date = None,
        status = PENDING\<rparr>]
   = ([\<lparr>code = JStr ''TASK-001'', title = JStr ''Fix login bug'',
        description = JStr ''Login fails'', type = BUG,
        start_date = Some \<lparr>year = 2024, month = 1, day = 5\<rparr>, due_date = None,
        status = DONE\<rparr>],
      Inr (Dict [(''code'', JStr ''TASK-001''), (''title'', JStr ''Fix login bug''),
                 (''description'', JStr ''Login fails''), (''type'', JStr ''bug''),
                 (''start_date'', JStr ''2024-01-05''), (''due_date'', JNull),
                 (''status'', JStr ''done'')]))"
    by (simp add: dispatch_def coerce_update_def in_dict_def get_def of_json_def date_value_def
        drop_none_def call_update_task_def call_check_def text_arg_def type_arg_def status_arg_def
        date_arg_def update_task_def set_fields_def task_result_def to_dict_def date_json_def
        TaskStatus_call_def isoformat_def zero_pad_4 zero_pad_2 digit_char_def Let_def)
  with d update_task_keeps_unsupplied_fields [OF d, of ascii_lower "[\<lparr>code = JStr ''TASK-001'', title = JStr ''Fix login bug'',
        description = JStr ''Login fails'', type = BUG,
        start_date = Some \<lparr>year = 2024, month = 1, day = 5\<rparr>, due_date = None,
        status = PENDING\<rparr>]"]
  show ?thesis
    by simp
qed

theorem update_task_clears_description_counterexample:
  "dispatch ascii_lower ''update_task'' [(''code'', JStr ''TASK-001''), (''description'', JStr [])]
     [\<lparr>code = JStr ''TASK-001'', title = JStr ''Fix login bug'',
        description = JStr ''Login fails'', type = BUG,
        start_date = Some \<lparr>year = 2024, month = 1, day = 5\<rparr>, due_date = None,
        status = PENDING\<rparr>]
   = ([\<lparr>code = JStr ''TASK-001'', title = JStr ''Fix login bug'',
        description = JStr [], type = BUG,
        start_date = Some \<lparr>year = 2024, month = 1, day = 5\<rparr>, due_date = None,
        status = PENDING\<rparr>],
      Inr (Dict [(''code'', JStr ''TASK-001''), (''title'', JStr ''Fix login bug''),
                 (''description'', JStr []), (''type'', JStr ''bug''),
                 (''start_date'', JStr ''2024-01-05''), (''due_date'', JNull),
                 (''status'', JStr ''pending'')]))"
  by (simp add: dispatch_def coerce_update_def in_dict_def get_def of_json_def date_value_def
        drop_none_def call_update_task_def call_check_def text_arg_def type_arg_def status_arg_def
        date_arg_def update_task_def set_fields_def task_result_def to_dict_def date_json_def
        TaskStatus_call_def isoformat_def zero_pad_4 zero_pad_2 digit_char_def Let_def)

section \<open>Empty date strings\<close>

lemma dispatch_add_task_total:
  "dispatch lower ''add_task'' args tasks =
     (case (if in_dict ''type'' args then TaskType_call (get args ''type'') else Inr TASK) of
        Inl e \<Rightarrow> (tasks, Inl e)
      | Inr ty \<Rightarrow>
     (case (if in_dict ''status'' args then TaskStatus_call (get args ''status'')
            else Inr PENDING) of
        Inl e \<Rightarrow> (tasks, Inl e)
      | Inr st \<Rightarrow>
     (case parse_date (get args ''start_date'') of
        Inl e \<Rightarrow> (tasks, Inl e)
      | Inr sd \<Rightarrow>
     (case parse_date (get args ''due_date'') of
        Inl e \<Rightarrow> (tasks, Inl e)
      | Inr dd \<Rightarrow>
     (case find (\<lambda>k. k \<notin> set [''code'', ''title'', ''description'', ''type'', ''start_date'',
                                  ''due_date'', ''status'']) (map fst args) of
        Some k \<Rightarrow> (tasks, Inl (unexpected_keyword ''add_task'' k))
      | None \<Rightarrow>
          (case filter (\<lambda>k. \<not> in_dict k args) [''code'', ''title''] of
             [] \<Rightarrow>
               (tasks @ [\<lparr>code = get args ''code'', title = get args ''title'',
                        description = (if in_dict ''description'' args then get args ''description''
                                       else JStr []),
                        type = ty, start_date = sd, due_date = dd, status = st\<rparr>],
                Inr (Dict (to_dict \<lparr>code = get args ''code'', title = get args ''title'',
                        description = (if in_dict ''description'' args then get args ''description''
                                       else JStr []),
                        type = ty, start_date = sd, due_date = dd, status = st\<rparr>)))
           | ks \<Rightarrow> (tasks, Inl (missing_arguments ''add_task'' ks))))))))"
proof (cases "coerce_add args")
  case (Inl e)
  then have "dispatch lower ''add_task'' args tasks = (tasks, Inl e)"
    by (rule dispatch_add_task_error)
  with Inl show ?thesis
    unfolding coerce_add_def by (auto split: sum.splits if_splits)
next
  case (Inr kw)
  then obtain ty st sd dd where
    c: "(if in_dict ''type'' args then TaskType_call (get args ''type'') else Inr TASK) = Inr ty"
      "(if in_dict ''status'' args then TaskStatus_call (get args ''status'') else Inr PENDING)
         = Inr st"
      "parse_date (get args ''start_date'') = Inr sd"
      "parse_date (get args ''due_date'') = Inr dd"
    unfolding coerce_add_def by (auto split: sum.splits)
  show ?thesis
    unfolding dispatch_add_task_closed [OF c] c by simp
qed

lemma in_dict_remove: "in_dict k' (filter (\<lambda>(a, b). a \<noteq> k) al) \<longleftrightarrow> k' \<noteq> k \<and> in_dict k' al"
  by (induction al) (auto simp: in_dict_def)

lemma get_remove: "get (filter (\<lambda>(a, b). a \<noteq> k) al) k' = (if k' = k then JNull else get al k')"
  by (induction al) (auto simp: get_def)

lemma find_keys_remove:
  "\<not> P k \<Longrightarrow> find P (map fst (filter (\<lambda>(a, b). a \<noteq> k) al)) = find P (map fst al)"
  by (induction al) auto

lemma find_keys_filter_remove:
  "\<not> P k \<Longrightarrow>
   find P (map fst (filter Q (filter (\<lambda>(a, b). a \<noteq> k) al))) = find P (map fst (filter Q al))"
  by (induction al) auto

lemma distinct_remove: "distinct (map fst al) \<Longrightarrow> distinct (map fst (filter (\<lambda>(a, b). a \<noteq> k) al))"
  by (rule distinct_map_filter)


lemma empty_start_date:
  assumes d: "distinct (map fst args)" and h: "get args ''start_date'' = JStr []"
  shows "dispatch lower ''add_task'' args tasks =
        dispatch lower ''add_task'' (filter (\<lambda>(k, v). k \<noteq> ''start_date'') args) tasks"
    and "dispatch lower ''update_task'' args tasks =
        dispatch lower ''update_task'' (filter (\<lambda>(k, v). k \<noteq> ''start_date'') args) tasks"
    and "\<forall>tasks' r. dispatch lower ''add_task'' args tasks = (tasks', Inr r) \<longrightarrow>
         (\<exists>t. tasks' = tasks @ [t] \<and> start_date t = None \<and> r = Dict (to_dict t))"
    and "map start_date (fst (dispatch lower ''update_task'' args tasks)) = map start_date tasks"
proof -
  have p: "parse_date (get args ''start_date'') = Inr None"
    using h by simp
  show "dispatch lower ''add_task'' args tasks =
        dispatch lower ''add_task'' (filter (\<lambda>(k, v). k \<noteq> ''start_date'') args) tasks"
    unfolding dispatch_add_task_total
    by (simp add: in_dict_remove get_remove find_keys_remove p
        cong: sum.case_cong option.case_cong list.case_cong if_cong)
  show "dispatch lower ''update_task'' args tasks =
        dispatch lower ''update_task'' (filter (\<lambda>(k, v). k \<noteq> ''start_date'') args) tasks"
  proof -
    have f: "find (\<lambda>k. k \<notin> set [''code'', ''title'', ''description'', ''type'', ''start_date'',
                                  ''due_date'', ''status''])
          (map fst (filter (\<lambda>(k, v). v \<noteq> JNull \<or> k = ''code'')
             (filter (\<lambda>(k, v). k \<noteq> ''start_date'') args))) =
        find (\<lambda>k. k \<notin> set [''code'', ''title'', ''description'', ''type'', ''start_date'',
                                  ''due_date'', ''status''])
          (map fst (filter (\<lambda>(k, v). v \<noteq> JNull \<or> k = ''code'') args))"
      by (rule find_keys_filter_remove) simp
    show ?thesis
      unfolding dispatch_update_task_total [OF d]
        dispatch_update_task_total [OF distinct_remove [OF d]] f
      by (simp add: in_dict_remove get_remove p
          cong: sum.case_cong option.case_cong list.case_cong if_cong)
  qed
  show "\<forall>tasks' r. dispatch lower ''add_task'' args tasks = (tasks', Inr r) \<longrightarrow>
         (\<exists>t. tasks' = tasks @ [t] \<and> start_date t = None \<and> r = Dict (to_dict t))"
    unfolding dispatch_add_task_total p
    by (auto split: sum.splits option.splits list.splits)
  from dispatch_update_task_effect [OF d, of lower tasks]
  have len: "length (fst (dispatch lower ''update_task'' args tasks)) = length tasks"
    and eff: "fst (dispatch lower ''update_task'' args tasks) = tasks \<or>
      (\<exists>ty st sd dd.
         (ty = None \<longleftrightarrow> \<not> in_dict ''type'' args) \<and>
         (st = None \<longleftrightarrow> \<not> in_dict ''status'' args) \<and>
         parse_date (get args ''start_date'') = Inr sd \<and>
         parse_date (get args ''due_date'') = Inr dd \<and>
         (\<forall>i < length tasks.
            fst (dispatch lower ''update_task'' args tasks) ! i = tasks ! i \<or>
            fst (dispatch lower ''update_task'' args tasks) ! i =
              set_fields (get args ''title'') (get args ''description'') ty sd dd st (tasks ! i)))"
    by blast+
  have "\<forall>i < length tasks.
      start_date (fst (dispatch lower ''update_task'' args tasks) ! i) = start_date (tasks ! i)"
    using eff p by (auto simp: set_fields_simps)
  with len show "map start_date (fst (dispatch lower ''update_task'' args tasks)) = map start_date tasks"
    by (simp add: list_eq_iff_nth_eq)
qed

lemma empty_due_date:
  assumes d: "distinct (map fst args)" and h: "get args ''due_date'' = JStr []"
  shows "dispatch lower ''add_task'' args tasks =
        dispatch lower ''add_task'' (filter (\<lambda>(k, v). k \<noteq> ''due_date'') args) tasks"
    and "dispatch lower ''update_task'' args tasks =
        dispatch lower ''update_task'' (filter (\<lambda>(k, v). k \<noteq> ''due_date'') args) tasks"
    and "\<forall>tasks' r. dispatch lower ''add_task'' args tasks = (tasks', Inr r) \<longrightarrow>
         (\<exists>t. tasks' = tasks @ [t] \<and> due_date t = None \<and> r = Dict (to_dict t))"
    and "map due_date (fst (dispatch lower ''update_task'' args tasks)) = map due_date tasks"
proof -
  have p: "parse_date (get args ''due_date'') = Inr None"
    using h by simp
  show "dispatch lower ''add_task'' args tasks =
        dispatch lower ''add_task'' (filter (\<lambda>(k, v). k \<noteq> ''due_date'') args) tasks"
    unfolding dispatch_add_task_total
    by (simp add: in_dict_remove get_remove find_keys_remove p
        cong: sum.case_cong option.case_cong list.case_cong if_cong)
  show "dispatch lower ''update_task'' args tasks =
        dispatch lower ''update_task'' (filter (\<lambda>(k, v). k \<noteq> ''due_date'') args) tasks"
  proof -
    have f: "find (\<lambda>k. k \<notin> set [''code'', ''title'', ''description'', ''type'', ''start_date'',
                                  ''due_date'', ''status''])
          (map fst (filter (\<lambda>(k, v). v \<noteq> JNull \<or> k = ''code'')
             (filter (\<lambda>(k, v). k \<noteq> ''due_date'') args))) =
        find (\<lambda>k. k \<notin> set [''code'', ''title'', ''description'', ''type'', ''start_date'',
                                  ''due_date'', ''status''])
          (map fst (filter (\<lambda>(k, v). v \<noteq> JNull \<or> k = ''code'') args))"
      by (rule find_keys_filter_remove) simp
    show ?thesis
      unfolding dispatch_update_task_total [OF d]
        dispatch_update_task_total [OF distinct_remove [OF d]] f
      by (simp add: in_dict_remove get_remove p
          cong: sum.case_cong option.case_cong list.case_cong if_cong)
  qed
  show "\<forall>tasks' r. dispatch lower ''add_task'' args tasks = (tasks', Inr r) \<longrightarrow>
         (\<exists>t. tasks' = tasks @ [t] \<and> due_date t = None \<and> r = Dict (to_dict t))"
    unfolding dispatch_add_task_total p
    by (auto split: sum.splits option.splits list.splits)
  from dispatch_update_task_effect [OF d, of lower tasks]
  have len: "length (fst (dispatch lower ''update_task'' args tasks)) = length tasks"
    and eff: "fst (dispatch lower ''update_task'' args tasks) = tasks \<or>
      (\<exists>ty st sd dd.
         (ty = None \<longleftrightarrow> \<not> in_dict ''type'' args) \<and>
         (st = None \<longleftrightarrow> \<not> in_dict ''status'' args) \<and>
         parse_date (get args ''start_date'') = Inr sd \<and>
         parse_date (get args ''due_date'') = Inr dd \<and>
         (\<forall>i < length tasks.
            fst (dispatch lower ''update_task'' args tasks) ! i = tasks ! i \<or>
            fst (dispatch lower ''update_task'' args tasks) ! i =
              set_fields (get args ''title'') (get args ''description'') ty sd dd st (tasks ! i)))"
    by blast+
  have "\<forall>i < length tasks.
      due_date (fst (dispatch lower ''update_task'' args tasks) ! i) = due_date (tasks ! i)"
    using eff p by (auto simp: set_fields_simps)
  with len show "map due_date (fst (dispatch lower ''update_task'' args tasks)) = map due_date tasks"
    by (simp add: list_eq_iff_nth_eq)
qed

text \<open>
  Claim C10. \<open>parse_date\<close> returns \<^verbatim>\<open>None\<close> for an absent argument (\<^verbatim>\<open>arguments.get\<close> gives
  \<^verbatim>\<open>None\<close>) and for the empty string. So a date argument sent as the empty string is not
  rejected: \<open>add_task\<close> and \<open>update_task\<close> do exactly what they do when that argument is
  left out. A task that \<open>add_task\<close> then creates has that date unset, and \<open>update_task\<close>
  leaves that date of every stored task as it was.
\<close>

theorem empty_date_string_is_no_date:
  "parse_date JNull = Inr None \<and> parse_date (JStr []) = Inr None \<and>
   (\<not> in_dict k args \<longrightarrow> get args k = JNull) \<and>
   (distinct (map fst args) \<and> get args ''start_date'' = JStr [] \<longrightarrow>
      dispatch lower ''add_task'' args tasks =
        dispatch lower ''add_task'' (filter (\<lambda>(k, v). k \<noteq> ''start_date'') args) tasks \<and>
      dispatch lower ''update_task'' args tasks =
        dispatch lower ''update_task'' (filter (\<lambda>(k, v). k \<noteq> ''start_date'') args) tasks \<and>
      (\<forall>tasks' r. dispatch lower ''add_task'' args tasks = (tasks', Inr r) \<longrightarrow>
         (\<exists>t. tasks' = tasks @ [t] \<and> start_date t = None \<and> r = Dict (to_dict t))) \<and>
      map start_date (fst (dispatch lower ''update_task'' args tasks)) = map start_date tasks) \<and>
   (distinct (map fst args) \<and> get args ''due_date'' = JStr [] \<longrightarrow>
      dispatch lower ''add_task'' args tasks =
        dispatch lower ''add_task'' (filter (\<lambda>(k, v). k \<noteq> ''due_date'') args) tasks \<and>
      dispatch lower ''update_task'' args tasks =
        dispatch lower ''update_task'' (filter (\<lambda>(k, v). k \<noteq> ''due_date'') args) tasks \<and>
      (\<forall>tasks' r. dispatch lower ''add_task'' args tasks = (tasks', Inr r) \<longrightarrow>
         (\<exists>t. tasks' = tasks @ [t] \<and> due_date t = None \<and> r = Dict (to_dict t))) \<and>
      map due_date (fst (dispatch lower ''update_task'' args tasks)) = map due_date tasks)"
  using empty_start_date [of args lower tasks] empty_due_date [of args lower tasks]
  by (simp add: get_not_in_dict)

theorem empty_date_string_is_no_date_witness:
  "distinct (map fst [(''code'', JStr ''TASK-001''), (''title'', JStr ''Fix login bug''), (''start_date'', JStr [])]) \<and>
   get [(''code'', JStr ''TASK-001''), (''title'', JStr ''Fix login bug''), (''start_date'', JStr [])] ''start_date'' = JStr [] \<and>
   dispatch ascii_lower ''add_task'' [(''code'', JStr ''TASK-001''), (''title'', JStr ''Fix login bug''), (''start_date'', JStr [])] []
   = dispatch ascii_lower ''add_task'' [(''code'', JStr ''TASK-001''), (''title'', JStr ''Fix login bug'')] [] \<and>
   dispatch ascii_lower ''add_task'' [(''code'', JStr ''TASK-001''), (''title'', JStr ''Fix login bug''), (''start_date'', JStr [])] []
   = ([\<lparr>code = JStr ''TASK-001'', title = JStr ''Fix login bug'', description = JStr [],
         type = TASK, start_date = None, due_date = None, status = PENDING\<rparr>],
      Inr (Dict [(''code'', JStr ''TASK-001''), (''title'', JStr ''Fix login bug''),
                 (''description'', JStr []), (''type'', JStr ''task''),
                 (''start_date'', JNull), (''due_date'', JNull),
                 (''status'', JStr ''pending'')]))"
proof -
  have d: "distinct (map fst [(''code'', JStr ''TASK-001''), (''title'', JStr ''Fix login bug''), (''start_date'', JStr [])])"
    by simp
  have g: "get [(''code'', JStr ''TASK-001''), (''title'', JStr ''Fix login bug''), (''start_date'', JStr [])] ''start_date'' = JStr []"
    by (simp add: get_def)
  have ev: "dispatch ascii_lower ''add_task'' [(''code'', JStr ''TASK-001''), (''title'', JStr ''Fix login bug''), (''start_date'', JStr [])] []
   = ([\<lparr>code = JStr ''TASK-001'', title = JStr ''Fix login bug'', description = JStr [],
         type = TASK, start_date = None, due_date = None, status = PENDING\<rparr>],
      Inr (Dict [(''code'', JStr ''TASK-001''), (''title'', JStr ''Fix login bug''),
                 (''description'', JStr []), (''type'', JStr ''task''),
                 (''start_date'', JNull), (''due_date'', JNull),
                 (''status'', JStr ''pending'')]))"
    unfolding dispatch_add_task_total
    by (simp add: in_dict_def get_def to_dict_def date_json_def)
  from empty_date_string_is_no_date
    [where args = "[(''code'', JStr ''TASK-001''), (''title'', JStr ''Fix login bug''), (''start_date'', JStr [])]" and tasks = "[]" and k = "''due_date''" and lower = ascii_lower] d g
  have "dispatch ascii_lower ''add_task'' [(''code'', JStr ''TASK-001''), (''title'', JStr ''Fix login bug''), (''start_date'', JStr [])] []
   = dispatch ascii_lower ''add_task''
       (filter (\<lambda>(k, v). k \<noteq> ''start_date'') [(''code'', JStr ''TASK-001''), (''title'', JStr ''Fix login bug''), (''start_date'', JStr [])]) []"
    by blast
  then have eq: "dispatch ascii_lower ''add_task'' [(''code'', JStr ''TASK-001''), (''title'', JStr ''Fix login bug''), (''start_date'', JStr [])] []
   = dispatch ascii_lower ''add_task'' [(''code'', JStr ''TASK-001''), (''title'', JStr ''Fix login bug'')] []"
    by simp
  from d g eq ev show ?thesis
    by blast
qed

section \<open>Querying the store\<close>





section \<open>Arguments that do not coerce\<close>












lemma dispatch_get_tasks_store: "fst (dispatch lower ''get_tasks'' args tasks) = tasks"
  by (simp add: dispatch_def split: sum.split)









section \<open>What a stored task holds\<close>







end
